theory Spec2Isabelle
  imports Complex_Main
begin

section \<open>Data model\<close>

text \<open>
  The module \<^verbatim>\<open>gluoncv/utils/bbox.py\<close> works on numpy arrays of numbers. The IOU
  functions are modelled over the exact reals; the one place where their arithmetic
  leaves the finite numbers, a true division by zero, is written out in
  \<open>np_true_divide\<close>. The box converters \<open>bbox_xywh_to_xyxy\<close> and \<open>bbox_xyxy_to_xywh\<close>
  carry the rounding of their number type, so that their results are those of int64 or
  float64 arithmetic.
\<close>

datatype py_error = IndexError | TypeError | ValueError | TopologicalError

text \<open>A two-dimensional ndarray: its shape and its rows (row-major).\<close>

record 'a ndarray2 =
  shape0 :: nat
  shape1 :: nat
  rows :: "'a list list"

definition wf2 :: "'a ndarray2 \<Rightarrow> bool" where
  "wf2 A \<longleftrightarrow> length (rows A) = shape0 A \<and> list_all (\<lambda>r. length r = shape1 A) (rows A)"

text \<open>
  The result of numpy's true division of two finite floats: division by zero raises
  nothing (it only warns) and yields \<open>nan\<close> for \<open>0/0\<close> and a signed infinity otherwise.
\<close>

datatype np_float = Fin real | PosInf | NegInf | NaN

definition np_true_divide :: "real \<Rightarrow> real \<Rightarrow> np_float" where
  "np_true_divide a b =
     (if b \<noteq> 0 then Fin (a / b)
      else if a = 0 then NaN
      else if 0 < a then PosInf else NegInf)"

section \<open>Axis-aligned box IOU\<close>

text \<open>
  For one row \<open>a\<close> of \<open>bbox_a\<close> and one row \<open>b\<close> of \<open>bbox_b\<close>: the slices \<^verbatim>\<open>[:2]\<close> and
  \<^verbatim>\<open>[2:4]\<close> are \<open>take 2\<close> and \<open>take 2 \<circ> drop 2\<close>. The boolean mask
  \<^verbatim>\<open>(tl < br).all(axis=2)\<close> multiplies the product as 0 or 1.
\<close>

definition tl_corner :: "real list \<Rightarrow> real list \<Rightarrow> real list" where
  "tl_corner a b = map2 max (take 2 a) (take 2 b)"

definition br_corner :: "real list \<Rightarrow> real list \<Rightarrow> real list" where
  "br_corner a b = map2 min (take 2 (drop 2 a)) (take 2 (drop 2 b))"

definition area_i :: "real \<Rightarrow> real list \<Rightarrow> real list \<Rightarrow> real" where
  "area_i offset a b =
     prod_list (map (\<lambda>d. d + offset) (map2 (-) (br_corner a b) (tl_corner a b)))
       * of_bool (list_all2 (<) (tl_corner a b) (br_corner a b))"

definition box_area :: "real \<Rightarrow> real list \<Rightarrow> real" where
  "box_area offset r =
     prod_list (map (\<lambda>d. d + offset) (map2 (-) (take 2 (drop 2 r)) (take 2 r)))"

definition iou_entry :: "real \<Rightarrow> real list \<Rightarrow> real list \<Rightarrow> np_float" where
  "iou_entry offset a b =
     np_true_divide (area_i offset a b)
       (box_area offset a + box_area offset b - area_i offset a b)"

definition bbox_iou :: "real ndarray2 \<Rightarrow> real ndarray2 \<Rightarrow> real \<Rightarrow> py_error + np_float ndarray2" where
  "bbox_iou bbox_a bbox_b offset =
     (if shape1 bbox_a < 4 \<or> shape1 bbox_b < 4 then Inl IndexError
      else Inr \<lparr>shape0 = shape0 bbox_a, shape1 = shape0 bbox_b,
                rows = map (\<lambda>a. map (iou_entry offset a) (rows bbox_b)) (rows bbox_a)\<rparr>)"

text \<open>The transpose \<^verbatim>\<open>.T\<close> of a two-dimensional array.\<close>

definition transpose2 :: "'a ndarray2 \<Rightarrow> 'a ndarray2" where
  "transpose2 A = \<lparr>shape0 = shape1 A, shape1 = shape0 A,
                   rows = map (\<lambda>j. map (\<lambda>r. r ! j) (rows A)) [0..<shape1 A]\<rparr>"

section \<open>Polygon IOU\<close>

text \<open>
  \<open>polygon_iou\<close> calls three operations of the geometry library (shapely):
  \<^verbatim>\<open>Polygon(p).convex_hull\<close>, \<^verbatim>\<open>polya.intersection(polyb).area\<close> and
  \<^verbatim>\<open>MultiPoint(pts).convex_hull.area\<close>. They are not code of this module and are taken
  as parameters; each may raise. A polygon is a list of points, a collection of polygons
  (an array of shape (N, P, 2)) a list of polygons.
\<close>

type_synonym point = "real \<times> real"

record 'g geometry =
  Polygon_convex_hull :: "point list \<Rightarrow> py_error + 'g"
  intersection_area :: "'g \<Rightarrow> 'g \<Rightarrow> py_error + real"
  MultiPoint_convex_hull_area :: "point list \<Rightarrow> py_error + real"

text \<open>The body of the \<^verbatim>\<open>try\<close> block for one pair.\<close>

definition try_iou :: "'g geometry \<Rightarrow> point list \<Rightarrow> 'g \<Rightarrow> point list \<Rightarrow> 'g \<Rightarrow> py_error + real" where
  "try_iou G polygon_a polya polygon_b polyb =
     (case intersection_area G polya polyb of
        Inl e \<Rightarrow> Inl e
      | Inr inter_area \<Rightarrow>
          (case MultiPoint_convex_hull_area G (polygon_a @ polygon_b) of
             Inl e \<Rightarrow> Inl e
           | Inr union_area \<Rightarrow>
               Inr (if union_area = 0 \<or> inter_area = 0 then 0
                    else inter_area / union_area)))"

text \<open>
  One iteration of the inner loop: the hull of \<open>polygon_b\<close> is built before the
  \<^verbatim>\<open>try\<close>; the handler catches \<open>TopologicalError\<close> only and stores 0. The diagnostic
  \<^verbatim>\<open>print\<close> of the handler is not modelled.
\<close>

definition pair_iou :: "'g geometry \<Rightarrow> point list \<Rightarrow> 'g \<Rightarrow> point list \<Rightarrow> py_error + real" where
  "pair_iou G polygon_a polya polygon_b =
     (case Polygon_convex_hull G polygon_b of
        Inl e \<Rightarrow> Inl e
      | Inr polyb \<Rightarrow>
          (case try_iou G polygon_a polya polygon_b polyb of
             Inl TopologicalError \<Rightarrow> Inr 0
           | Inl e \<Rightarrow> Inl e
           | Inr iou \<Rightarrow> Inr iou))"

fun iou_row :: "'g geometry \<Rightarrow> point list \<Rightarrow> 'g \<Rightarrow> point list list \<Rightarrow> py_error + real list" where
  "iou_row G polygon_a polya [] = Inr []"
| "iou_row G polygon_a polya (polygon_b # bs) =
     (case pair_iou G polygon_a polya polygon_b of
        Inl e \<Rightarrow> Inl e
      | Inr iou \<Rightarrow>
          (case iou_row G polygon_a polya bs of
             Inl e \<Rightarrow> Inl e
           | Inr ious \<Rightarrow> Inr (iou # ious)))"

fun iou_rows :: "'g geometry \<Rightarrow> point list list \<Rightarrow> point list list \<Rightarrow> py_error + real list list" where
  "iou_rows G [] polygon_bs = Inr []"
| "iou_rows G (polygon_a # as) polygon_bs =
     (case Polygon_convex_hull G polygon_a of
        Inl e \<Rightarrow> Inl e
      | Inr polya \<Rightarrow>
          (case iou_row G polygon_a polya polygon_bs of
             Inl e \<Rightarrow> Inl e
           | Inr r \<Rightarrow>
               (case iou_rows G as polygon_bs of
                  Inl e \<Rightarrow> Inl e
                | Inr rs \<Rightarrow> Inr (r # rs))))"

text \<open>The argument \<open>offset\<close> is accepted and never used, as in the source.\<close>

definition polygon_iou :: "'g geometry \<Rightarrow> point list list \<Rightarrow> point list list \<Rightarrow> real \<Rightarrow> py_error + real ndarray2" where
  "polygon_iou G polygon_as polygon_bs offset =
     (case iou_rows G polygon_as polygon_bs of
        Inl e \<Rightarrow> Inl e
      | Inr rs \<Rightarrow> Inr \<lparr>shape0 = length polygon_as, shape1 = length polygon_bs, rows = rs\<rparr>)"

text \<open>
  Two small instances of the geometry operations, used to run \<open>polygon_iou\<close> on concrete
  polygons. A hull is represented by the point list it was built from. The first answers
  every intersection with area 0 and fails topologically when the second hull has no
  point; the second answers with the areas of two unit squares that overlap in a quarter
  (intersection 1/4, hull of the pooled points 2).
\<close>

definition zero_overlap_geometry :: "point list geometry" where
  "zero_overlap_geometry =
     \<lparr>Polygon_convex_hull = Inr,
      intersection_area = (\<lambda>a b. if b = [] then Inl TopologicalError else Inr 0),
      MultiPoint_convex_hull_area = (\<lambda>ps. Inr 11)\<rparr>"

definition quarter_overlap_geometry :: "point list geometry" where
  "quarter_overlap_geometry =
     \<lparr>Polygon_convex_hull = Inr,
      intersection_area = (\<lambda>a b. Inr (1 / 4)),
      MultiPoint_convex_hull_area = (\<lambda>ps. Inr 2)\<rparr>"

section \<open>Chebyshev radius evaluation\<close>

text \<open>
  \<^verbatim>\<open>np.linspace(-1, 1, 360)\<close>: sample \<open>k\<close> is \<open>-1 + k * (2 / 359)\<close>.
\<close>

definition linspace360 :: "nat \<Rightarrow> real" where
  "linspace360 k = - 1 + real k * (2 / 359)"

text \<open>
  numpy's \<^verbatim>\<open>chebval(x, c)\<close> for the coefficients \<open>c\<close> of one row: Clenshaw's recurrence, run
  from the last coefficient down. With no coefficient at all the read of \<^verbatim>\<open>c[-2]\<close>
  raises \<open>IndexError\<close>.
\<close>

definition clenshaw_step :: "real \<Rightarrow> real \<Rightarrow> real \<times> real \<Rightarrow> real \<times> real" where
  "clenshaw_step x2 ci = (\<lambda>(c0, c1). (ci - c1, c0 + c1 * x2))"

definition chebval :: "real \<Rightarrow> real list \<Rightarrow> py_error + real" where
  "chebval x c =
     (case rev c of
        [] \<Rightarrow> Inl IndexError
      | [a] \<Rightarrow> Inr (a + 0 * x)
      | c1 # c0 # cs \<Rightarrow>
          (case fold (clenshaw_step (2 * x)) cs (c0, c1) of
             (c0', c1') \<Rightarrow> Inr (c0' + c1' * x)))"

text \<open>The first error of a list of results, or all the values.\<close>

fun collect :: "('e + 'a) list \<Rightarrow> 'e + 'a list" where
  "collect [] = Inr []"
| "collect (Inl e # rs) = Inl e"
| "collect (Inr v # rs) = (case collect rs of Inl e \<Rightarrow> Inl e | Inr vs \<Rightarrow> Inr (v # vs))"

definition cheby :: "real ndarray2 \<Rightarrow> py_error + real ndarray2" where
  "cheby coef =
     (if shape1 coef = 0 then Inl IndexError
      else
        (case collect (map (\<lambda>c. collect (map (\<lambda>k. chebval (linspace360 k) c) [0..<360]))
                 (rows coef)) of
           Inl e \<Rightarrow> Inl e
         | Inr r \<Rightarrow> Inr \<lparr>shape0 = shape0 coef, shape1 = 360, rows = r\<rparr>))"

section \<open>Polygon reconstruction from coefficients\<close>

text \<open>
  numpy broadcasting of one axis: two lengths are compatible when they are equal or one
  of them is 1; a row of a one-row operand is read for every row of the result.
\<close>

definition broadcast_dim :: "nat \<Rightarrow> nat \<Rightarrow> py_error + nat" where
  "broadcast_dim m n =
     (if m = n then Inr m else if m = 1 then Inr n else if n = 1 then Inr m
      else Inl ValueError)"

definition brow :: "'a list \<Rightarrow> nat \<Rightarrow> 'a" where
  "brow xs i = (if length xs = 1 then xs ! 0 else xs ! i)"

text \<open>
  \<^verbatim>\<open>np.clip(x, lo, hi)\<close> is \<^verbatim>\<open>minimum(hi, maximum(x, lo))\<close>; the bounds are not compared
  with each other.
\<close>

definition np_clip :: "real \<Rightarrow> real \<Rightarrow> real \<Rightarrow> real" where
  "np_clip x lo hi = min hi (max x lo)"

text \<open>
  \<^verbatim>\<open>cv.polarToCart(r, theta, angleInDegrees=True)\<close> for one sample, over the reals.
\<close>

definition polarToCart :: "real \<Rightarrow> real \<Rightarrow> real \<times> real" where
  "polarToCart r theta = (r * cos (theta * pi / 180), r * sin (theta * pi / 180))"

text \<open>
  Row \<open>i\<close> of the result, from the row \<open>b\<close> of \<open>bboxs\<close>, the row \<open>ctr\<close> of \<open>centers\<close> and
  the row \<open>ch\<close> of \<open>cheby(coefs)\<close>. Sample \<open>k\<close> has the angle \<open>359 - k\<close> degrees. The
  casts \<^verbatim>\<open>astype(np.float32)\<close> change no value over the reals and are left out.
\<close>

definition polygon_row :: "real list \<Rightarrow> real list \<Rightarrow> real list \<Rightarrow> point list" where
  "polygon_row b ctr ch =
     (let bboxsw = \<bar>b ! 2 - b ! 0\<bar>;
          bboxsh = \<bar>b ! 3 - b ! 1\<bar>;
          relative_len = sqrt (bboxsw * bboxsw + bboxsh * bboxsh)
      in map (\<lambda>k.
           (case polarToCart (ch ! k * relative_len) (real (359 - k)) of
              (x, y) \<Rightarrow> (np_clip (x + ctr ! 0) (b ! 0) (b ! 2),
                         np_clip (y + ctr ! 1) (b ! 1) (b ! 3))))
         [0..<360])"

definition coef_trans_polygon :: "real ndarray2 \<Rightarrow> real ndarray2 \<Rightarrow> real ndarray2 \<Rightarrow> py_error + point list list" where
  "coef_trans_polygon coefs bboxs centers =
     (if shape1 bboxs < 4 then Inl IndexError
      else if shape1 centers < 2 then Inl IndexError
      else
        (case cheby coefs of
           Inl e \<Rightarrow> Inl e
         | Inr ch \<Rightarrow>
             (case broadcast_dim (shape0 ch) (shape0 bboxs) of
                Inl e \<Rightarrow> Inl e
              | Inr n1 \<Rightarrow>
                  (case broadcast_dim n1 (shape0 centers) of
                     Inl e \<Rightarrow> Inl e
                   | Inr n2 \<Rightarrow>
                       (case broadcast_dim n2 (shape0 bboxs) of
                          Inl e \<Rightarrow> Inl e
                        | Inr n3 \<Rightarrow>
                            Inr (map (\<lambda>i. polygon_row (brow (rows bboxs) i)
                                              (brow (rows centers) i) (brow (rows ch) i))
                                   [0..<n3]))))))"

section \<open>Composite coefficient IOU\<close>

definition coef_iou :: "'g geometry \<Rightarrow> real ndarray2 \<Rightarrow> real ndarray2 \<Rightarrow> real ndarray2 \<Rightarrow> real ndarray2 \<Rightarrow> real ndarray2 \<Rightarrow> real ndarray2 \<Rightarrow> py_error + real ndarray2" where
  "coef_iou G coef_as coef_bs bbox_as bbox_bs center_as center_bs =
     (case coef_trans_polygon coef_as bbox_as center_as of
        Inl e \<Rightarrow> Inl e
      | Inr polygon_as \<Rightarrow>
          (case coef_trans_polygon coef_bs bbox_bs center_bs of
             Inl e \<Rightarrow> Inl e
           | Inr polygon_bs \<Rightarrow> polygon_iou G polygon_as polygon_bs 0))"

text \<open>
  \<^verbatim>\<open>a.reshape(-1, 360, 1)\<close>: the elements in row-major order, cut into runs of 360;
  \<open>ValueError\<close> when the size is not a multiple of 360.
\<close>

definition reshape360 :: "'a ndarray2 \<Rightarrow> py_error + 'a list list" where
  "reshape360 A =
     (if (shape0 A * shape1 A) mod 360 \<noteq> 0 then Inl ValueError
      else Inr (map (\<lambda>m. take 360 (drop (m * 360) (concat (rows A))))
                  [0..<(shape0 A * shape1 A) div 360]))"

text \<open>
  \<^verbatim>\<open>np.concatenate((xs, ys), axis=-1)\<close> of two arrays of shape (M, 360, 1): the leading
  lengths must agree.
\<close>

definition concatenate_last :: "real list list \<Rightarrow> real list list \<Rightarrow> py_error + point list list" where
  "concatenate_last xs ys =
     (if length xs \<noteq> length ys then Inl ValueError else Inr (map2 zip xs ys))"

definition coef_polygon_iou :: "'g geometry \<Rightarrow> real ndarray2 \<Rightarrow> real ndarray2 \<Rightarrow> real ndarray2 \<Rightarrow> real ndarray2 \<Rightarrow> real ndarray2 \<Rightarrow> py_error + real ndarray2" where
  "coef_polygon_iou G pred_coef_l pred_center_l pred_bbox_l gt_points_xs_l gt_points_ys_l =
     (case reshape360 gt_points_xs_l of
        Inl e \<Rightarrow> Inl e
      | Inr xs \<Rightarrow>
          (case reshape360 gt_points_ys_l of
             Inl e \<Rightarrow> Inl e
           | Inr ys \<Rightarrow>
               (case concatenate_last xs ys of
                  Inl e \<Rightarrow> Inl e
                | Inr polygon_bs \<Rightarrow>
                    (case coef_trans_polygon pred_coef_l pred_bbox_l pred_center_l of
                       Inl e \<Rightarrow> Inl e
                     | Inr polygon_as \<Rightarrow> polygon_iou G polygon_as polygon_bs 0))))"

text \<open>
  What the specification calls the ground-truth points in polygon form: polygon \<open>m\<close> pairs
  the \<open>m\<close>-th row of x-coordinates with the \<open>m\<close>-th row of y-coordinates.
\<close>

definition spec_gt_polygons :: "real ndarray2 \<Rightarrow> real ndarray2 \<Rightarrow> point list list" where
  "spec_gt_polygons gt_xs gt_ys = map2 zip (rows gt_xs) (rows gt_ys)"

section \<open>Box format conversions and clipping\<close>

text \<open>
  The argument of the converters is dispatched on its Python type: a tuple, a list, an
  ndarray (of one or of two dimensions here), or anything else.
\<close>

datatype 'a pyval =
    Tuple "'a list"
  | PyList "'a list"
  | NdArray1 "'a list"
  | NdArray2 "'a ndarray2"
  | Other

text \<open>Elementwise operation on two rows under broadcasting of their one axis.\<close>

definition bc_map2 :: "('a \<Rightarrow> 'b \<Rightarrow> 'c) \<Rightarrow> 'a list \<Rightarrow> 'b list \<Rightarrow> 'c list" where
  "bc_map2 f xs ys =
     (if length xs = length ys then map2 f xs ys
      else if length xs = 1 then map (f (hd xs)) ys
      else map (\<lambda>x. f x (hd ys)) xs)"

text \<open>
  The coordinates of a box are numbers of one machine type, and every addition and
  subtraction of the two format converters returns the exact result rounded into that
  type. The converters take this rounding as their argument \<open>rnd\<close>: \<open>wrap_int64\<close> for
  int64 values (two's complement wrap-around) and \<open>round_float64\<close> for float64 values
  (round to nearest, ties to even, with 53 significant bits and the subnormal spacing
  below \<open>2 powi - 1022\<close>). Overflow of a float to infinity, NaN and Python integers
  beyond the int64 range are not covered by these two roundings.
\<close>

definition wrap_int64 :: "int \<Rightarrow> int" where
  "wrap_int64 n = (n + 2 ^ 63) mod 2 ^ 64 - 2 ^ 63"

definition rne :: "real \<Rightarrow> int" where
  "rne q =
     (let f = \<lfloor>q\<rfloor>; d = q - of_int f
      in if d < 1 / 2 then f else if 1 / 2 < d then f + 1
         else if even f then f else f + 1)"

definition float64_ulp :: "real \<Rightarrow> real" where
  "float64_ulp x = 2 powi (max \<lfloor>log 2 \<bar>x\<bar>\<rfloor> (- 1022) - 52)"

definition round_float64 :: "real \<Rightarrow> real" where
  "round_float64 x =
     (if x = 0 then 0 else of_int (rne (x / float64_ulp x)) * float64_ulp x)"

text \<open>\<^verbatim>\<open>astype\<close>: the same table with every entry converted.\<close>

definition astype :: "('a \<Rightarrow> 'b) \<Rightarrow> 'a ndarray2 \<Rightarrow> 'b ndarray2" where
  "astype f A = \<lparr>shape0 = shape0 A, shape1 = shape1 A, rows = map (map f) (rows A)\<rparr>"

text \<open>
  A box (x, y, w, h) of integers whose extents are at least 1 and for which the values the
  converters compute, up to \<open>x + w - 1\<close> and \<open>y + h - 1\<close>, do not exceed \<open>B\<close> in magnitude.
\<close>

definition pixel_box :: "int \<Rightarrow> int list \<Rightarrow> bool" where
  "pixel_box B r \<longleftrightarrow>
     1 \<le> r ! 2 \<and> r ! 2 \<le> B \<and> \<bar>r ! 0 + r ! 2 - 1\<bar> \<le> B
     \<and> 1 \<le> r ! 3 \<and> r ! 3 \<le> B \<and> \<bar>r ! 1 + r ! 3 - 1\<bar> \<le> B"

definition xywh_to_xyxy_seq :: "('a \<Rightarrow> 'a) \<Rightarrow> ('a::linordered_idom) list \<Rightarrow> py_error + 'a pyval" where
  "xywh_to_xyxy_seq rnd xywh =
     (if \<not> length xywh = 4 then Inl IndexError
      else
        (let w = max (rnd (xywh ! 2 - 1)) 0; h = max (rnd (xywh ! 3 - 1)) 0
         in Inr (Tuple [xywh ! 0, xywh ! 1, rnd (xywh ! 0 + w), rnd (xywh ! 1 + h)])))"

text \<open>
  On a two-dimensional array of shape (N, C) the slices \<^verbatim>\<open>[:, :2]\<close> and \<^verbatim>\<open>[:, 2:4]\<close> have
  \<open>min 2 C\<close> and \<open>min 2 (C - 2)\<close> columns; their sum is formed under broadcasting. A
  one-dimensional array passes or fails the size test and then fails the two-index read.
\<close>

definition bbox_xywh_to_xyxy :: "('a \<Rightarrow> 'a) \<Rightarrow> ('a::linordered_idom) pyval \<Rightarrow> py_error + 'a pyval" where
  "bbox_xywh_to_xyxy rnd xywh =
     (case xywh of
        Tuple t \<Rightarrow> xywh_to_xyxy_seq rnd t
      | PyList t \<Rightarrow> xywh_to_xyxy_seq rnd t
      | NdArray1 v \<Rightarrow> Inl IndexError
      | NdArray2 A \<Rightarrow>
          (if \<not> (shape0 A * shape1 A) mod 4 = 0 then Inl IndexError
           else
             (case broadcast_dim (min 2 (shape1 A)) (min 2 (shape1 A - 2)) of
                Inl e \<Rightarrow> Inl e
              | Inr c \<Rightarrow>
                  Inr (NdArray2 \<lparr>shape0 = shape0 A, shape1 = min 2 (shape1 A) + c,
                         rows = map (\<lambda>r. take 2 r @
                                  bc_map2 (\<lambda>a b. rnd (a + b)) (take 2 r)
                                    (map (\<lambda>v. max 0 (rnd (v - 1))) (take 2 (drop 2 r))))
                                (rows A)\<rparr>)))
      | Other \<Rightarrow> Inl TypeError)"

definition xyxy_to_xywh_seq :: "('a \<Rightarrow> 'a) \<Rightarrow> ('a::linordered_idom) list \<Rightarrow> py_error + 'a pyval" where
  "xyxy_to_xywh_seq rnd xyxy =
     (if \<not> length xyxy = 4 then Inl IndexError
      else
        (let x1 = xyxy ! 0; y1 = xyxy ! 1;
             w = rnd (rnd (xyxy ! 2 - x1) + 1); h = rnd (rnd (xyxy ! 3 - y1) + 1)
         in Inr (Tuple [x1, y1, w, h])))"

definition bbox_xyxy_to_xywh :: "('a \<Rightarrow> 'a) \<Rightarrow> ('a::linordered_idom) pyval \<Rightarrow> py_error + 'a pyval" where
  "bbox_xyxy_to_xywh rnd xyxy =
     (case xyxy of
        Tuple t \<Rightarrow> xyxy_to_xywh_seq rnd t
      | PyList t \<Rightarrow> xyxy_to_xywh_seq rnd t
      | NdArray1 v \<Rightarrow> Inl IndexError
      | NdArray2 A \<Rightarrow>
          (if \<not> (shape0 A * shape1 A) mod 4 = 0 then Inl IndexError
           else
             (case broadcast_dim (min 2 (shape1 A - 2)) (min 2 (shape1 A)) of
                Inl e \<Rightarrow> Inl e
              | Inr c \<Rightarrow>
                  Inr (NdArray2 \<lparr>shape0 = shape0 A, shape1 = min 2 (shape1 A) + c,
                         rows = map (\<lambda>r. take 2 r @
                                  map (\<lambda>v. rnd (v + 1))
                                    (bc_map2 (\<lambda>a b. rnd (a - b)) (take 2 (drop 2 r)) (take 2 r)))
                                (rows A)\<rparr>)))
      | Other \<Rightarrow> Inl TypeError)"

text \<open>
  The clipping takes only minima and maxima of its arguments and of the two bounds
  \<open>width - 1\<close> and \<open>height - 1\<close>.
\<close>

definition clip_seq :: "('a::linordered_idom) list \<Rightarrow> 'a \<Rightarrow> 'a \<Rightarrow> py_error + 'a pyval" where
  "clip_seq xyxy width height =
     (if \<not> length xyxy = 4 then Inl IndexError
      else
        (let x1 = min (width - 1) (max 0 (xyxy ! 0));
             y1 = min (height - 1) (max 0 (xyxy ! 1));
             x2 = min (width - 1) (max 0 (xyxy ! 2));
             y2 = min (height - 1) (max 0 (xyxy ! 3))
         in Inr (Tuple [x1, y1, x2, y2])))"

text \<open>
  On an array the four columns are clipped one by one, each a one-dimensional array of
  length N, and \<^verbatim>\<open>np.hstack\<close> of one-dimensional arrays lays them end to end. A column read
  fails with \<open>IndexError\<close> when the array has fewer than four columns.
\<close>

definition bbox_clip_xyxy :: "('a::linordered_idom) pyval \<Rightarrow> 'a \<Rightarrow> 'a \<Rightarrow> py_error + 'a pyval" where
  "bbox_clip_xyxy xyxy width height =
     (case xyxy of
        Tuple t \<Rightarrow> clip_seq t width height
      | PyList t \<Rightarrow> clip_seq t width height
      | NdArray1 v \<Rightarrow> Inl IndexError
      | NdArray2 A \<Rightarrow>
          (if \<not> (shape0 A * shape1 A) mod 4 = 0 then Inl IndexError
           else if shape1 A < 4 then Inl IndexError
           else
             (let x1 = map (\<lambda>r. min (width - 1) (max 0 (r ! 0))) (rows A);
                  y1 = map (\<lambda>r. min (height - 1) (max 0 (r ! 1))) (rows A);
                  x2 = map (\<lambda>r. min (width - 1) (max 0 (r ! 2))) (rows A);
                  y2 = map (\<lambda>r. min (height - 1) (max 0 (r ! 3))) (rows A)
              in Inr (NdArray1 (x1 @ y1 @ x2 @ y2))))
      | Other \<Rightarrow> Inl TypeError)"

section \<open>Properties of the box IOU\<close>

text \<open>
  C3. \<open>bbox_iou\<close> on the single boxes A = (0,0,10,10) and B = (5,5,15,15) with offset 0
  returns the 1 x 1 matrix whose entry is 25/175: the intersection area is 25 and the
  union area is 100 + 100 - 25 = 175.
\<close>

theorem bbox_iou_example:
  "bbox_iou \<lparr>shape0 = 1, shape1 = 4, rows = [[0, 0, 10, 10]]\<rparr>
            \<lparr>shape0 = 1, shape1 = 4, rows = [[5, 5, 15, 15]]\<rparr> 0
     = Inr \<lparr>shape0 = 1, shape1 = 1, rows = [[Fin (25 / 175)]]\<rparr>
   \<and> area_i 0 [0, 0, 10, 10] [5, 5, 15, 15] = 25
   \<and> box_area 0 [0, 0, 10, 10] + box_area 0 [5, 5, 15, 15]
        - area_i 0 [0, 0, 10, 10] [5, 5, 15, 15] = 175"
  by (simp add: bbox_iou_def iou_entry_def np_true_divide_def area_i_def box_area_def
      tl_corner_def br_corner_def)


lemma map2_commute:
  assumes "\<And>x y. f x y = f y x"
  shows "map2 f xs ys = map2 f ys xs"
proof (induction xs arbitrary: ys)
  case Nil
  then show ?case by simp
next
  case (Cons x xs)
  then show ?case using assms by (cases ys) simp_all
qed

lemma tl_corner_commute: "tl_corner a b = tl_corner b a"
  unfolding tl_corner_def by (rule map2_commute) (simp add: max.commute)

lemma br_corner_commute: "br_corner a b = br_corner b a"
  unfolding br_corner_def by (rule map2_commute) (simp add: min.commute)

lemma area_i_commute: "area_i offset a b = area_i offset b a"
proof -
  have "tl_corner a b = tl_corner b a" and "br_corner a b = br_corner b a"
    by (rule tl_corner_commute, rule br_corner_commute)
  then show ?thesis by (simp only: area_i_def)
qed

lemma iou_entry_commute: "iou_entry offset a b = iou_entry offset b a"
proof -
  have "area_i offset a b = area_i offset b a" by (rule area_i_commute)
  then show ?thesis by (simp only: iou_entry_def add.commute)
qed

lemma transpose_rows:
  "map (\<lambda>j. map (\<lambda>r. r ! j) (map (\<lambda>a. map (f a) bs) as)) [0..<length bs]
     = map (\<lambda>b. map (\<lambda>a. f a b) as) bs"
proof (rule nth_equalityI)
  show "length (map (\<lambda>j. map (\<lambda>r. r ! j) (map (\<lambda>a. map (f a) bs) as)) [0..<length bs])
      = length (map (\<lambda>b. map (\<lambda>a. f a b) as) bs)"
    by simp
next
  fix j
  assume "j < length (map (\<lambda>j. map (\<lambda>r. r ! j) (map (\<lambda>a. map (f a) bs) as)) [0..<length bs])"
  then have j: "j < length bs" by simp
  then show "map (\<lambda>j. map (\<lambda>r. r ! j) (map (\<lambda>a. map (f a) bs) as)) [0..<length bs] ! j
      = map (\<lambda>b. map (\<lambda>a. f a b) as) bs ! j"
    by (simp add: comp_def)
qed

lemma bbox_iou_rows:
  "4 \<le> shape1 A \<Longrightarrow> 4 \<le> shape1 B \<Longrightarrow> bbox_iou A B offset =
     Inr \<lparr>shape0 = shape0 A, shape1 = shape0 B,
          rows = map (\<lambda>a. map (iou_entry offset a) (rows B)) (rows A)\<rparr>"
  by (simp add: bbox_iou_def)




text \<open>
  C5. For all box tables A (N rows) and B (M rows) with at least four columns and any
  offset, \<open>bbox_iou A B\<close> returns an N x M matrix and \<open>bbox_iou B A\<close> returns its
  transpose.
\<close>

theorem bbox_iou_transpose:
  assumes "wf2 A" and "wf2 B" and "4 \<le> shape1 A" and "4 \<le> shape1 B"
  shows "\<exists>R. bbox_iou A B offset = Inr R \<and> bbox_iou B A offset = Inr (transpose2 R)
             \<and> shape0 R = shape0 A \<and> shape1 R = shape0 B"
proof -
  have len: "length (rows B) = shape0 B" using assms(2) by (simp add: wf2_def)
  let ?R = "\<lparr>shape0 = shape0 A, shape1 = shape0 B,
          rows = map (\<lambda>a. map (iou_entry offset a) (rows B)) (rows A)\<rparr>"
  have ab: "bbox_iou A B offset = Inr ?R"
    using assms(3,4) by (rule bbox_iou_rows)
  have "rows (transpose2 ?R) = map (\<lambda>b. map (\<lambda>a. iou_entry offset a b) (rows A)) (rows B)"
    using transpose_rows [of "iou_entry offset" "rows B" "rows A"]
    by (simp add: transpose2_def len)
  also have "\<dots> = map (\<lambda>b. map (iou_entry offset b) (rows A)) (rows B)"
    by (simp only: iou_entry_commute [of offset])
  finally have "transpose2 ?R = \<lparr>shape0 = shape0 B, shape1 = shape0 A,
          rows = map (\<lambda>b. map (iou_entry offset b) (rows A)) (rows B)\<rparr>"
    by (simp add: transpose2_def)
  then have ba: "bbox_iou B A offset = Inr (transpose2 ?R)"
    using bbox_iou_rows [OF assms(4,3), of offset] by simp
  show ?thesis using ab ba by (intro exI [of _ ?R]) simp
qed

theorem bbox_iou_transpose_witness:
  "wf2 \<lparr>shape0 = 2, shape1 = 4, rows = [[0, 0, 10, 10], [20, 20, 30, 30 :: real]]\<rparr>
   \<and> wf2 \<lparr>shape0 = 1, shape1 = 4, rows = [[5, 5, 15, 15 :: real]]\<rparr>
   \<and> (\<exists>R. bbox_iou \<lparr>shape0 = 2, shape1 = 4, rows = [[0, 0, 10, 10], [20, 20, 30, 30]]\<rparr>
                    \<lparr>shape0 = 1, shape1 = 4, rows = [[5, 5, 15, 15]]\<rparr> 0 = Inr R
          \<and> bbox_iou \<lparr>shape0 = 1, shape1 = 4, rows = [[5, 5, 15, 15]]\<rparr>
                    \<lparr>shape0 = 2, shape1 = 4, rows = [[0, 0, 10, 10], [20, 20, 30, 30]]\<rparr> 0
              = Inr (transpose2 R)
          \<and> shape0 R = 2 \<and> shape1 R = 1)"
proof -
  let ?A = "\<lparr>shape0 = 2, shape1 = 4, rows = [[0, 0, 10, 10], [20, 20, 30, 30 :: real]]\<rparr>"
  let ?B = "\<lparr>shape0 = 1, shape1 = 4, rows = [[5, 5, 15, 15 :: real]]\<rparr>"
  have a: "wf2 ?A" and b: "wf2 ?B" by (simp_all add: wf2_def)
  have ca: "4 \<le> shape1 ?A" and cb: "4 \<le> shape1 ?B" by simp_all
  show ?thesis using a b bbox_iou_transpose [OF a b ca cb, of 0] by simp
qed

section \<open>Properties of the box converters\<close>

lemma length4E:
  assumes "length r = 4"
  obtains a b c d where "r = [a, b, c, d]"
proof -
  from assms obtain a r1 where r: "r = a # r1" and l1: "length r1 = 3"
    by (cases r) auto
  from l1 obtain b r2 where r1: "r1 = b # r2" and l2: "length r2 = 2"
    by (cases r1) auto
  from l2 obtain c r3 where r2: "r2 = c # r3" and l3: "length r3 = 1"
    by (cases r2) auto
  from l3 obtain d where r3: "r3 = [d]"
    by (cases r3) auto
  show thesis using that r r1 r2 r3 by simp
qed

text \<open>Both roundings leave an integer unchanged while it is small enough.\<close>

lemma wrap_int64_exact: "\<bar>n\<bar> \<le> 2 ^ 63 - 1 \<Longrightarrow> wrap_int64 (of_int n) = of_int n"
  by (simp add: wrap_int64_def)

lemma rne_of_int: "rne (of_int m) = m"
  by (simp add: rne_def)

lemma float64_ulp_eval:
  assumes "2 powi e \<le> \<bar>x\<bar>" and "\<bar>x\<bar> < 2 powi (e + 1)" and "- 1022 \<le> e"
  shows "float64_ulp x = 2 powi (e - 52)"
proof -
  have "(0::real) < 2 powi e" by simp
  with assms(1) have pos: "0 < \<bar>x\<bar>" by linarith
  have p1: "(2::real) powr real_of_int e = 2 powi e"
    and p2: "(2::real) powr real_of_int (e + 1) = 2 powi (e + 1)"
    by (simp_all only: powr_real_of_int' [of 2, simplified])
  have "\<lfloor>log 2 \<bar>x\<bar>\<rfloor> = e"
    using assms(1,2) floor_log_eq_powr_iff [OF pos, of 2 e] by (simp only: p1 p2)
  then show ?thesis using assms(3) by (simp add: float64_ulp_def)
qed

lemma round_float64_eval:
  assumes "2 powi e \<le> \<bar>x\<bar>" and "\<bar>x\<bar> < 2 powi (e + 1)" and "- 1022 \<le> e"
  shows "round_float64 x = of_int (rne (x / 2 powi (e - 52))) * 2 powi (e - 52)"
proof -
  have "(0::real) < 2 powi e" by simp
  with assms(1) have "0 < \<bar>x\<bar>" by linarith
  then have "x \<noteq> 0" by simp
  then show ?thesis
    by (simp add: round_float64_def float64_ulp_eval [OF assms])
qed

lemma round_float64_exact:
  assumes "\<bar>n\<bar> \<le> 2 ^ 53"
  shows "round_float64 (of_int n) = of_int n"
proof (cases "n = 0")
  case True
  then show ?thesis by (simp add: round_float64_def)
next
  case False
  define x :: real where "x = of_int n"
  define e where "e = \<lfloor>log 2 \<bar>x\<bar>\<rfloor>"
  have x1: "1 \<le> \<bar>x\<bar>" using False by (simp add: x_def)
  have xu: "\<bar>x\<bar> \<le> 2 ^ 53"
  proof -
    have "real_of_int \<bar>n\<bar> \<le> real_of_int (2 ^ 53)" using assms by (rule of_int_le_iff [THEN iffD2])
    then show ?thesis by (simp add: x_def)
  qed
  have p1: "(2::real) powr real_of_int e = 2 powi e"
    and p2: "(2::real) powr real_of_int (e + 1) = 2 powi (e + 1)"
    by (simp_all only: powr_real_of_int' [of 2, simplified])
  have "0 < \<bar>x\<bar>" using x1 by simp
  from floor_log_eq_powr_iff [OF this, of 2 e]
  have b: "2 powi e \<le> \<bar>x\<bar> \<and> \<bar>x\<bar> < 2 powi (e + 1)"
    unfolding p1 p2 by (simp add: e_def)
  have e0: "0 \<le> e"
  proof (rule ccontr)
    assume "\<not> 0 \<le> e"
    then have "e + 1 \<le> 0" by simp
    then have "(2::real) powi (e + 1) \<le> 2 powi 0" by (intro power_int_increasing) simp_all
    with b x1 show False by simp
  qed
  have e53: "e \<le> 53"
  proof (rule ccontr)
    assume "\<not> e \<le> 53"
    then have "53 + 1 \<le> e" by simp
    then have "(2::real) powi (53 + 1) \<le> 2 powi e" by (intro power_int_increasing) simp_all
    with b xu show False by simp
  qed
  have u: "float64_ulp x = 2 powi (e - 52)"
    using b e0 by (intro float64_ulp_eval) simp_all
  have "\<exists>m. x / 2 powi (e - 52) = of_int m"
  proof (cases "e \<le> 52")
    case True
    then have "(2::real) powi (e - 52) = inverse (2 ^ nat (52 - e))"
      by (simp add: power_int_def power_one_over inverse_eq_divide)
    then have "x / 2 powi (e - 52) = of_int (n * 2 ^ nat (52 - e))"
      by (simp add: x_def divide_inverse)
    then show ?thesis by blast
  next
    case False
    with e53 have e: "e = 53" by simp
    with b have "(2::real) ^ 53 \<le> \<bar>x\<bar>" by simp
    with xu have ax: "\<bar>x\<bar> = 2 ^ 53" by simp
    have "x = 2 ^ 53 \<or> x = - (2 ^ 53)" using ax by (simp add: abs_if split: if_splits)
    then have "x / 2 powi (e - 52) = of_int (2 ^ 52) \<or> x / 2 powi (e - 52) = of_int (- (2 ^ 52))"
      by (auto simp: e)
    then show ?thesis by blast
  qed
  then obtain m where m: "x / 2 powi (e - 52) = of_int m" by blast
  have nz: "(2::real) powi (e - 52) \<noteq> 0" by simp
  have "x \<noteq> 0" using x1 by auto
  then have "round_float64 x = of_int m * 2 powi (e - 52)"
    by (simp add: round_float64_def u m rne_of_int)
  also have "\<dots> = x" using m nz by (simp add: field_simps)
  finally show ?thesis by (simp add: x_def)
qed

text \<open>
  The four operations on one extent: \<open>w - 1\<close>, \<open>x + (w - 1)\<close>, \<open>(x + w - 1) - x\<close> and
  \<open>(w - 1) + 1\<close>, when the rounding is exact on the integers up to \<open>B\<close>.
\<close>

lemma exact_extent:
  fixes rnd :: "('a::linordered_idom) \<Rightarrow> 'a"
  assumes ex: "\<forall>n. \<bar>n\<bar> \<le> B \<longrightarrow> rnd (of_int n) = of_int n"
    and w: "1 \<le> w" "w \<le> B" and xw: "\<bar>x + w - 1\<bar> \<le> B"
  shows "rnd (of_int x + max (rnd (of_int w - 1)) 0) = of_int (x + w - 1)"
    and "rnd (of_int x + max 0 (rnd (of_int w - 1))) = of_int (x + w - 1)"
    and "rnd (rnd (of_int (x + w - 1) - of_int x) + 1) = of_int w"
proof -
  have a: "rnd (of_int w - 1) = of_int (w - 1)"
  proof -
    have "\<bar>w - 1\<bar> \<le> B" using w by simp
    with ex have "rnd (of_int (w - 1)) = of_int (w - 1)" by blast
    then show ?thesis by simp
  qed
  have m: "max (of_int (w - 1)) (0::'a) = of_int (w - 1)"
    and m': "max (0::'a) (of_int (w - 1)) = of_int (w - 1)"
    using w by (simp_all add: max_def)
  have b: "rnd (of_int x + of_int (w - 1)) = of_int (x + w - 1)"
  proof -
    from ex xw have "rnd (of_int (x + w - 1)) = of_int (x + w - 1)" by blast
    moreover have "(of_int x :: 'a) + of_int (w - 1) = of_int (x + w - 1)" by simp
    ultimately show ?thesis by (simp only:)
  qed
  show "rnd (of_int x + max (rnd (of_int w - 1)) 0) = of_int (x + w - 1)"
    by (simp only: a m b)
  show "rnd (of_int x + max 0 (rnd (of_int w - 1))) = of_int (x + w - 1)"
    by (simp only: a m' b)
  have c: "rnd (of_int (x + w - 1) - of_int x) = of_int (w - 1)"
  proof -
    have "\<bar>w - 1\<bar> \<le> B" using w by simp
    with ex have "rnd (of_int (w - 1)) = of_int (w - 1)" by blast
    moreover have "(of_int (x + w - 1) :: 'a) - of_int x = of_int (w - 1)" by simp
    ultimately show ?thesis by (simp only:)
  qed
  have d: "rnd (of_int (w - 1) + 1) = of_int w"
  proof -
    have "\<bar>w\<bar> \<le> B" using w by simp
    with ex have "rnd (of_int w) = of_int w" by blast
    moreover have "(of_int (w - 1) :: 'a) + 1 = of_int w" by simp
    ultimately show ?thesis by (simp only:)
  qed
  show "rnd (rnd (of_int (x + w - 1) - of_int x) + 1) = of_int w"
    by (simp only: c d)
qed

lemma roundtrip_seq:
  fixes rnd :: "('a::linordered_idom) \<Rightarrow> 'a"
  assumes ex: "\<forall>n. \<bar>n\<bar> \<le> B \<longrightarrow> rnd (of_int n) = of_int n"
    and "1 \<le> w" and "w \<le> B" and "\<bar>x + w - 1\<bar> \<le> B"
    and "1 \<le> h" and "h \<le> B" and "\<bar>y + h - 1\<bar> \<le> B"
  shows "xywh_to_xyxy_seq rnd [of_int x, of_int y, of_int w, of_int h]
           = Inr (Tuple [of_int x, of_int y, of_int (x + w - 1), of_int (y + h - 1)])"
    and "xyxy_to_xywh_seq rnd [of_int x, of_int y, of_int (x + w - 1), of_int (y + h - 1)]
           = Inr (Tuple [of_int x, of_int y, of_int w, of_int h])"
proof -
  note X = exact_extent [OF ex assms(2,3,4)]
  note Y = exact_extent [OF ex assms(5,6,7)]
  show "xywh_to_xyxy_seq rnd [of_int x, of_int y, of_int w, of_int h]
           = Inr (Tuple [of_int x, of_int y, of_int (x + w - 1), of_int (y + h - 1)])"
    by (simp add: xywh_to_xyxy_seq_def X(1) Y(1))
  show "xyxy_to_xywh_seq rnd [of_int x, of_int y, of_int (x + w - 1), of_int (y + h - 1)]
           = Inr (Tuple [of_int x, of_int y, of_int w, of_int h])"
    using X(3) Y(3) by (simp add: xyxy_to_xywh_seq_def)
qed

lemma roundtrip_row:
  fixes rnd :: "('a::linordered_idom) \<Rightarrow> 'a"
  assumes ex: "\<forall>n. \<bar>n\<bar> \<le> B \<longrightarrow> rnd (of_int n) = of_int n"
    and "length r = 4" and "pixel_box B r"
  shows "(\<lambda>r. take 2 r @ map (\<lambda>v. rnd (v + 1))
                (bc_map2 (\<lambda>a b. rnd (a - b)) (take 2 (drop 2 r)) (take 2 r)))
           ((\<lambda>r. take 2 r @ bc_map2 (\<lambda>a b. rnd (a + b)) (take 2 r)
                (map (\<lambda>v. max 0 (rnd (v - 1))) (take 2 (drop 2 r))))
              (map of_int r))
         = map of_int r"
proof -
  from assms(2) obtain x y w h where r: "r = [x, y, w, h]" by (rule length4E)
  from assms(3) have b: "1 \<le> w" "w \<le> B" "\<bar>x + w - 1\<bar> \<le> B"
    "1 \<le> h" "h \<le> B" "\<bar>y + h - 1\<bar> \<le> B"
    by (simp_all add: pixel_box_def r)
  note X = exact_extent [OF ex b(1,2,3)]
  note Y = exact_extent [OF ex b(4,5,6)]
  have f: "take 2 (map of_int r) @ bc_map2 (\<lambda>a b. rnd (a + b)) (take 2 (map of_int r))
                (map (\<lambda>v. max 0 (rnd (v - 1))) (take 2 (drop 2 (map of_int r))))
      = [of_int x, of_int y, of_int (x + w - 1), of_int (y + h - 1)]"
    by (simp add: r bc_map2_def X(2) Y(2))
  have g: "take 2 [of_int x, of_int y, of_int (x + w - 1), of_int (y + h - 1) :: 'a]
        @ map (\<lambda>v. rnd (v + 1)) (bc_map2 (\<lambda>a b. rnd (a - b))
            (take 2 (drop 2 [of_int x, of_int y, of_int (x + w - 1), of_int (y + h - 1)]))
            (take 2 [of_int x, of_int y, of_int (x + w - 1), of_int (y + h - 1)]))
      = [of_int x, of_int y, of_int w, of_int h]"
    using X(3) Y(3) by (simp add: bc_map2_def)
  show ?thesis unfolding f g by (simp add: r)
qed

lemma roundtrip_array:
  fixes rnd :: "('a::linordered_idom) \<Rightarrow> 'a"
  assumes ex: "\<forall>n. \<bar>n\<bar> \<le> B \<longrightarrow> rnd (of_int n) = of_int n"
    and "wf2 Z" and "shape1 Z = 4" and "list_all (pixel_box B) (rows Z)"
  shows "\<exists>A. bbox_xywh_to_xyxy rnd (NdArray2 (astype of_int Z)) = Inr (NdArray2 A)
            \<and> bbox_xyxy_to_xywh rnd (NdArray2 A) = Inr (NdArray2 (astype of_int Z))"
proof -
  let ?f = "\<lambda>r::'a list. take 2 r @ bc_map2 (\<lambda>a b. rnd (a + b)) (take 2 r)
                (map (\<lambda>v. max 0 (rnd (v - 1))) (take 2 (drop 2 r)))"
  let ?g = "\<lambda>r::'a list. take 2 r @ map (\<lambda>v. rnd (v + 1))
                (bc_map2 (\<lambda>a b. rnd (a - b)) (take 2 (drop 2 r)) (take 2 r))"
  let ?A = "\<lparr>shape0 = shape0 Z, shape1 = 4, rows = map ?f (map (map of_int) (rows Z))\<rparr>"
  have fwd: "bbox_xywh_to_xyxy rnd (NdArray2 (astype of_int Z)) = Inr (NdArray2 ?A)"
    using assms(3) by (simp add: bbox_xywh_to_xyxy_def broadcast_dim_def astype_def)
  have "map (\<lambda>r. ?g (?f (map of_int r))) (rows Z) = map (map of_int) (rows Z)"
  proof (rule map_cong [OF refl])
    fix r assume "r \<in> set (rows Z)"
    then have "length r = 4" and "pixel_box B r"
      using assms(2,3,4) by (auto simp: wf2_def list_all_iff)
    with ex show "?g (?f (map of_int r)) = map of_int r" by (rule roundtrip_row)
  qed
  then have "map ?g (map ?f (map (map of_int) (rows Z))) = map (map of_int) (rows Z)"
    by (simp add: comp_def)
  then have "bbox_xyxy_to_xywh rnd (NdArray2 ?A) = Inr (NdArray2 (astype of_int Z))"
    using assms(3) by (simp add: bbox_xyxy_to_xywh_def broadcast_dim_def astype_def)
  with fwd show ?thesis by blast
qed

text \<open>The two sequence converters, step by step.\<close>

lemma xywh_to_xyxy_seq_steps:
  fixes rnd :: "('a::linordered_idom) \<Rightarrow> 'a"
  assumes "rnd (w - 1) = w'" and "0 \<le> w'" and "rnd (x + w') = x2"
    and "rnd (h - 1) = h'" and "0 \<le> h'" and "rnd (y + h') = y2"
  shows "xywh_to_xyxy_seq rnd [x, y, w, h] = Inr (Tuple [x, y, x2, y2])"
  using assms by (simp add: xywh_to_xyxy_seq_def max_def)

lemma xyxy_to_xywh_seq_steps:
  fixes rnd :: "('a::linordered_idom) \<Rightarrow> 'a"
  assumes "rnd (x2 - x) = dw" and "rnd (dw + 1) = w"
    and "rnd (y2 - y) = dh" and "rnd (dh + 1) = h"
  shows "xyxy_to_xywh_seq rnd [x, y, x2, y2] = Inr (Tuple [x, y, w, h])"
  using assms by (simp add: xyxy_to_xywh_seq_def)

text \<open>
  C6, as the code has it. The claim "for every box with w \<ge> 1 and h \<ge> 1 the round trip
  returns the original" fails in float64 arithmetic, where each of the four operations
  rounds. For the box whose entries are the doubles nearest to (0.2, 0.0, 2.9, 1.0) the
  sum x + (w - 1) is rounded up, the difference and the final sum are rounded again, and
  the width that comes back is the next double above the original one.
\<close>

theorem bbox_xywh_xyxy_roundtrip_counterexample:
  "bbox_xywh_to_xyxy round_float64
       (Tuple [3602879701896397 / 18014398509481984, 0,
               6530219459687219 / 2251799813685248, 1])
     = Inr (Tuple [3602879701896397 / 18014398509481984, 0,
               4728779608739021 / 2251799813685248, 0])
   \<and> bbox_xyxy_to_xywh round_float64
       (Tuple [3602879701896397 / 18014398509481984, 0,
               4728779608739021 / 2251799813685248, 0])
     = Inr (Tuple [3602879701896397 / 18014398509481984, 0,
               1632554864921805 / 562949953421312, 1])
   \<and> (1632554864921805 / 562949953421312 :: real) \<noteq> 6530219459687219 / 2251799813685248
   \<and> (1 :: real) \<le> 6530219459687219 / 2251799813685248"
proof -
  have r1: "round_float64 (6530219459687219 / 2251799813685248 - 1)
      = 4278419646001971 / 2251799813685248"
    by (subst round_float64_eval [where e = 0]) (simp_all add: rne_def power_int_minus)
  have p1: "(0::real) \<le> 4278419646001971 / 2251799813685248" by simp
  have r2: "round_float64 (3602879701896397 / 18014398509481984
        + 4278419646001971 / 2251799813685248)
      = 4728779608739021 / 2251799813685248"
    by (subst round_float64_eval [where e = 1]) (simp_all add: rne_def power_int_minus)
  have r3: "round_float64 (4728779608739021 / 2251799813685248
        - 3602879701896397 / 18014398509481984)
      = 8556839292003943 / 4503599627370496"
    by (subst round_float64_eval [where e = 0]) (simp_all add: rne_def power_int_minus)
  have r4: "round_float64 (8556839292003943 / 4503599627370496 + 1)
      = 1632554864921805 / 562949953421312"
    by (subst round_float64_eval [where e = 1]) (simp_all add: rne_def power_int_minus)
  have h1: "round_float64 (1 - 1) = 0" and h2: "round_float64 (0 + 0) = 0"
    and h3: "round_float64 (0 - 0) = 0"
    by (simp_all add: round_float64_def)
  have h4: "round_float64 (0 + 1) = 1"
    using round_float64_exact [of 1] by simp
  have p0: "(0::real) \<le> 0" by simp
  have fwd: "bbox_xywh_to_xyxy round_float64
       (Tuple [3602879701896397 / 18014398509481984, 0,
               6530219459687219 / 2251799813685248, 1])
     = Inr (Tuple [3602879701896397 / 18014398509481984, 0,
               4728779608739021 / 2251799813685248, 0])"
    unfolding bbox_xywh_to_xyxy_def pyval.case
    by (rule xywh_to_xyxy_seq_steps [OF r1 p1 r2 h1 p0 h2])
  have bwd: "bbox_xyxy_to_xywh round_float64
       (Tuple [3602879701896397 / 18014398509481984, 0,
               4728779608739021 / 2251799813685248, 0])
     = Inr (Tuple [3602879701896397 / 18014398509481984, 0,
               1632554864921805 / 562949953421312, 1])"
    unfolding bbox_xyxy_to_xywh_def pyval.case
    by (rule xyxy_to_xywh_seq_steps [OF r3 r4 h3 h4])
  show ?thesis using fwd bwd by simp
qed

text \<open>
  C6, amended. For every box (x, y, w, h) of integers with w \<ge> 1 and h \<ge> 1, given as a
  tuple, as a list or as the rows of an N x 4 array, in a number type whose rounding
  leaves every integer up to w, h, x + w - 1 and y + h - 1 unchanged (magnitude at most
  \<open>2 ^ 53\<close> in float64, below \<open>2 ^ 63\<close> in int64), \<open>bbox_xywh_to_xyxy\<close> returns a box on
  which \<open>bbox_xyxy_to_xywh\<close> returns the original (x, y, w, h): as a tuple for a tuple or
  a list, as the same array for an array.
\<close>

theorem bbox_xywh_xyxy_roundtrip:
  fixes rnd :: "('a::linordered_idom) \<Rightarrow> 'a"
  assumes "\<forall>n. \<bar>n\<bar> \<le> B \<longrightarrow> rnd (of_int n) = of_int n"
    and "pixel_box B [x, y, w, h]"
    and "wf2 Z" and "shape1 Z = 4" and "list_all (pixel_box B) (rows Z)"
  shows "(\<exists>t. bbox_xywh_to_xyxy rnd (Tuple (map of_int [x, y, w, h])) = Inr t
            \<and> bbox_xyxy_to_xywh rnd t = Inr (Tuple (map of_int [x, y, w, h])))
       \<and> (\<exists>t. bbox_xywh_to_xyxy rnd (PyList (map of_int [x, y, w, h])) = Inr t
            \<and> bbox_xyxy_to_xywh rnd t = Inr (Tuple (map of_int [x, y, w, h])))
       \<and> (\<exists>A. bbox_xywh_to_xyxy rnd (NdArray2 (astype of_int Z)) = Inr (NdArray2 A)
            \<and> bbox_xyxy_to_xywh rnd (NdArray2 A) = Inr (NdArray2 (astype of_int Z)))"
proof -
  from assms(2) have b: "1 \<le> w" "w \<le> B" "\<bar>x + w - 1\<bar> \<le> B"
    "1 \<le> h" "h \<le> B" "\<bar>y + h - 1\<bar> \<le> B"
    by (simp_all add: pixel_box_def)
  note S = roundtrip_seq [OF assms(1) b]
  have t: "bbox_xywh_to_xyxy rnd (Tuple (map of_int [x, y, w, h]))
        = Inr (Tuple [of_int x, of_int y, of_int (x + w - 1), of_int (y + h - 1)])"
    and l: "bbox_xywh_to_xyxy rnd (PyList (map of_int [x, y, w, h]))
        = Inr (Tuple [of_int x, of_int y, of_int (x + w - 1), of_int (y + h - 1)])"
    using S(1) by (simp_all add: bbox_xywh_to_xyxy_def)
  have ret: "bbox_xyxy_to_xywh rnd
          (Tuple [of_int x, of_int y, of_int (x + w - 1), of_int (y + h - 1)])
        = Inr (Tuple (map of_int [x, y, w, h]))"
    using S(2) by (simp add: bbox_xyxy_to_xywh_def)
  from t l ret roundtrip_array [OF assms(1,3,4,5)] show ?thesis by blast
qed

theorem bbox_xywh_xyxy_roundtrip_witness:
  "pixel_box (2 ^ 53) [0, 0, 10, 1]
   \<and> wf2 \<lparr>shape0 = 2, shape1 = 4, rows = [[0, 0, 10, 10], [3, 4, 1, 2 :: int]]\<rparr>
   \<and> list_all (pixel_box (2 ^ 53)) [[0, 0, 10, 10], [3, 4, 1, 2]]
   \<and> (\<exists>t. bbox_xywh_to_xyxy round_float64 (Tuple [0, 0, 10, 1]) = Inr t
            \<and> bbox_xyxy_to_xywh round_float64 t = Inr (Tuple [0, 0, 10, 1]))
   \<and> (\<exists>t. bbox_xywh_to_xyxy round_float64 (PyList [0, 0, 10, 1]) = Inr t
            \<and> bbox_xyxy_to_xywh round_float64 t = Inr (Tuple [0, 0, 10, 1]))
   \<and> (\<exists>A. bbox_xywh_to_xyxy round_float64
               (NdArray2 \<lparr>shape0 = 2, shape1 = 4, rows = [[0, 0, 10, 10], [3, 4, 1, 2]]\<rparr>)
             = Inr (NdArray2 A)
          \<and> bbox_xyxy_to_xywh round_float64 (NdArray2 A)
             = Inr (NdArray2 \<lparr>shape0 = 2, shape1 = 4, rows = [[0, 0, 10, 10], [3, 4, 1, 2]]\<rparr>))"
proof -
  let ?Z = "\<lparr>shape0 = 2, shape1 = 4, rows = [[0, 0, 10, 10], [3, 4, 1, 2 :: int]]\<rparr>"
  have ex: "\<forall>n. \<bar>n\<bar> \<le> 2 ^ 53 \<longrightarrow> round_float64 (of_int n) = of_int n"
    by (simp add: round_float64_exact)
  have p: "pixel_box (2 ^ 53) [0, 0, 10, 1]" by (simp add: pixel_box_def)
  have z: "wf2 ?Z" by (simp add: wf2_def)
  have c: "shape1 ?Z = 4" by simp
  have q: "list_all (pixel_box (2 ^ 53)) (rows ?Z)" by (simp add: pixel_box_def)
  show ?thesis
    using p z q bbox_xywh_xyxy_roundtrip [OF ex p z c q] by (simp add: astype_def)
qed

lemma clip_seq_bounds:
  fixes a b c d width height :: "'a::linordered_idom"
  assumes "1 \<le> width" and "1 \<le> height"
  shows "\<exists>x1 y1 x2 y2. clip_seq [a, b, c, d] width height = Inr (Tuple [x1, y1, x2, y2])
           \<and> 0 \<le> x1 \<and> x1 \<le> width - 1 \<and> 0 \<le> x2 \<and> x2 \<le> width - 1
           \<and> 0 \<le> y1 \<and> y1 \<le> height - 1 \<and> 0 \<le> y2 \<and> y2 \<le> height - 1"
  using assms by (simp add: clip_seq_def Let_def)

lemma bbox_clip_array:
  fixes A :: "('a::linordered_idom) ndarray2"
  assumes "wf2 A" and "shape1 A = 4"
  shows "bbox_clip_xyxy (NdArray2 A) width height =
           Inr (NdArray1 (map (\<lambda>r. min (width - 1) (max 0 (r ! 0))) (rows A)
                        @ map (\<lambda>r. min (height - 1) (max 0 (r ! 1))) (rows A)
                        @ map (\<lambda>r. min (width - 1) (max 0 (r ! 2))) (rows A)
                        @ map (\<lambda>r. min (height - 1) (max 0 (r ! 3))) (rows A)))"
  using assms by (simp add: bbox_clip_xyxy_def Let_def)

lemma bbox_clip_array_bounds:
  fixes A :: "('a::linordered_idom) ndarray2"
  assumes "1 \<le> width" and "1 \<le> height" and "wf2 A" and "shape1 A = 4"
  shows "\<exists>v. bbox_clip_xyxy (NdArray2 A) width height = Inr (NdArray1 v)
           \<and> length v = 4 * shape0 A
           \<and> (\<forall>k < shape0 A.
                 0 \<le> v ! k \<and> v ! k \<le> width - 1
               \<and> 0 \<le> v ! (shape0 A + k) \<and> v ! (shape0 A + k) \<le> height - 1
               \<and> 0 \<le> v ! (2 * shape0 A + k) \<and> v ! (2 * shape0 A + k) \<le> width - 1
               \<and> 0 \<le> v ! (3 * shape0 A + k) \<and> v ! (3 * shape0 A + k) \<le> height - 1)"
proof -
  have len: "length (rows A) = shape0 A" using assms(3) by (simp add: wf2_def)
  let ?x1 = "map (\<lambda>r. min (width - 1) (max 0 (r ! 0))) (rows A)"
  let ?y1 = "map (\<lambda>r. min (height - 1) (max 0 (r ! 1))) (rows A)"
  let ?x2 = "map (\<lambda>r. min (width - 1) (max 0 (r ! 2))) (rows A)"
  let ?y2 = "map (\<lambda>r. min (height - 1) (max 0 (r ! 3))) (rows A)"
  let ?v = "?x1 @ ?y1 @ ?x2 @ ?y2"
  have eq: "bbox_clip_xyxy (NdArray2 A) width height = Inr (NdArray1 ?v)"
    using assms(3,4) by (rule bbox_clip_array)
  have l: "length ?v = 4 * shape0 A" by (simp add: len)
  have b: "0 \<le> ?v ! k \<and> ?v ! k \<le> width - 1
               \<and> 0 \<le> ?v ! (shape0 A + k) \<and> ?v ! (shape0 A + k) \<le> height - 1
               \<and> 0 \<le> ?v ! (2 * shape0 A + k) \<and> ?v ! (2 * shape0 A + k) \<le> width - 1
               \<and> 0 \<le> ?v ! (3 * shape0 A + k) \<and> ?v ! (3 * shape0 A + k) \<le> height - 1"
    if k: "k < shape0 A" for k
  proof -
    have 1: "?v ! k = ?x1 ! k" using k by (simp add: nth_append len)
    have 2: "?v ! (shape0 A + k) = ?y1 ! k" using k by (simp add: nth_append len)
    have 3: "?v ! (2 * shape0 A + k) = ?x2 ! k" using k by (simp add: nth_append len)
    have 4: "?v ! (3 * shape0 A + k) = ?y2 ! k" using k by (simp add: nth_append len)
    show ?thesis
      unfolding 1 2 3 4 using k assms(1,2) by (simp add: len)
  qed
  show ?thesis using eq l b by blast
qed

text \<open>
  C7, as the code has it. The claim "for all width and height arguments every coordinate
  of the result lies in [0, width - 1] or [0, height - 1]" fails when the boundary is
  smaller than 1: the outer \<^verbatim>\<open>np.minimum(width - 1, \<dots>)\<close> wins, and with width = height = 0
  every coordinate of the result is -1.
\<close>

theorem bbox_clip_xyxy_counterexample:
  "bbox_clip_xyxy (Tuple [0, 0, 5, 5 :: int]) 0 0 = Inr (Tuple [- 1, - 1, - 1, - 1])
   \<and> \<not> (0 :: int) \<le> - 1"
  by (simp add: bbox_clip_xyxy_def clip_seq_def)

text \<open>
  C7, amended. For width \<ge> 1 and height \<ge> 1 and every input box, every coordinate of the
  result of \<open>bbox_clip_xyxy\<close> satisfies 0 \<le> x1, x2 \<le> width - 1 and
  0 \<le> y1, y2 \<le> height - 1: in the tuple returned for a tuple or a list, and in the flat
  array returned for an N x 4 array, whose four runs of length N hold the x1, the y1, the
  x2 and the y2 of the rows.
\<close>

theorem bbox_clip_xyxy_bounds:
  fixes a b c d width height :: "'a::linordered_idom" and A :: "'a ndarray2"
  assumes "1 \<le> width" and "1 \<le> height" and "wf2 A" and "shape1 A = 4"
  shows "(\<exists>x1 y1 x2 y2. bbox_clip_xyxy (Tuple [a, b, c, d]) width height
                           = Inr (Tuple [x1, y1, x2, y2])
           \<and> 0 \<le> x1 \<and> x1 \<le> width - 1 \<and> 0 \<le> x2 \<and> x2 \<le> width - 1
           \<and> 0 \<le> y1 \<and> y1 \<le> height - 1 \<and> 0 \<le> y2 \<and> y2 \<le> height - 1)
       \<and> (\<exists>x1 y1 x2 y2. bbox_clip_xyxy (PyList [a, b, c, d]) width height
                           = Inr (Tuple [x1, y1, x2, y2])
           \<and> 0 \<le> x1 \<and> x1 \<le> width - 1 \<and> 0 \<le> x2 \<and> x2 \<le> width - 1
           \<and> 0 \<le> y1 \<and> y1 \<le> height - 1 \<and> 0 \<le> y2 \<and> y2 \<le> height - 1)
       \<and> (\<exists>v. bbox_clip_xyxy (NdArray2 A) width height = Inr (NdArray1 v)
           \<and> length v = 4 * shape0 A
           \<and> (\<forall>k < shape0 A.
                 0 \<le> v ! k \<and> v ! k \<le> width - 1
               \<and> 0 \<le> v ! (shape0 A + k) \<and> v ! (shape0 A + k) \<le> height - 1
               \<and> 0 \<le> v ! (2 * shape0 A + k) \<and> v ! (2 * shape0 A + k) \<le> width - 1
               \<and> 0 \<le> v ! (3 * shape0 A + k) \<and> v ! (3 * shape0 A + k) \<le> height - 1))"
proof (intro conjI)
  show "\<exists>x1 y1 x2 y2. bbox_clip_xyxy (Tuple [a, b, c, d]) width height
                           = Inr (Tuple [x1, y1, x2, y2])
           \<and> 0 \<le> x1 \<and> x1 \<le> width - 1 \<and> 0 \<le> x2 \<and> x2 \<le> width - 1
           \<and> 0 \<le> y1 \<and> y1 \<le> height - 1 \<and> 0 \<le> y2 \<and> y2 \<le> height - 1"
    using clip_seq_bounds [OF assms(1,2), of a b c d] by (simp add: bbox_clip_xyxy_def)
  show "\<exists>x1 y1 x2 y2. bbox_clip_xyxy (PyList [a, b, c, d]) width height
                           = Inr (Tuple [x1, y1, x2, y2])
           \<and> 0 \<le> x1 \<and> x1 \<le> width - 1 \<and> 0 \<le> x2 \<and> x2 \<le> width - 1
           \<and> 0 \<le> y1 \<and> y1 \<le> height - 1 \<and> 0 \<le> y2 \<and> y2 \<le> height - 1"
    using clip_seq_bounds [OF assms(1,2), of a b c d] by (simp add: bbox_clip_xyxy_def)
  show "\<exists>v. bbox_clip_xyxy (NdArray2 A) width height = Inr (NdArray1 v)
           \<and> length v = 4 * shape0 A
           \<and> (\<forall>k < shape0 A.
                 0 \<le> v ! k \<and> v ! k \<le> width - 1
               \<and> 0 \<le> v ! (shape0 A + k) \<and> v ! (shape0 A + k) \<le> height - 1
               \<and> 0 \<le> v ! (2 * shape0 A + k) \<and> v ! (2 * shape0 A + k) \<le> width - 1
               \<and> 0 \<le> v ! (3 * shape0 A + k) \<and> v ! (3 * shape0 A + k) \<le> height - 1)"
    using assms by (rule bbox_clip_array_bounds)
qed

theorem bbox_clip_xyxy_bounds_witness:
  "(1::int) \<le> 8 \<and> (1::int) \<le> 6
   \<and> wf2 \<lparr>shape0 = 2, shape1 = 4, rows = [[- 3, 2, 9, 9], [1, 1, 4, 7 :: int]]\<rparr>
   \<and> bbox_clip_xyxy (Tuple [- 3, 2, 9, 9 :: int]) 8 6 = Inr (Tuple [0, 2, 7, 5])
   \<and> bbox_clip_xyxy (PyList [- 3, 2, 9, 9 :: int]) 8 6 = Inr (Tuple [0, 2, 7, 5])
   \<and> bbox_clip_xyxy
        (NdArray2 \<lparr>shape0 = 2, shape1 = 4, rows = [[- 3, 2, 9, 9], [1, 1, 4, 7 :: int]]\<rparr>) 8 6
       = Inr (NdArray1 [0, 1, 2, 1, 7, 4, 5, 5])"
proof -
  let ?A = "\<lparr>shape0 = 2, shape1 = 4, rows = [[- 3, 2, 9, 9], [1, 1, 4, 7 :: int]]\<rparr>"
  have w: "(1::int) \<le> 8" and h: "(1::int) \<le> 6" by simp_all
  have a: "wf2 ?A" by (simp add: wf2_def)
  have c: "shape1 ?A = 4" by simp
  show ?thesis
    using w h a bbox_clip_xyxy_bounds [OF w h a c, of "- 3" 2 9 9]
    by (simp add: bbox_clip_xyxy_def clip_seq_def)
qed

lemma xywh_to_xyxy_shape:
  fixes A :: "('a::linordered_idom) ndarray2"
  assumes "wf2 A" and "shape1 A = 4"
  shows "\<exists>B. bbox_xywh_to_xyxy rnd (NdArray2 A) = Inr (NdArray2 B)
            \<and> shape0 B = shape0 A \<and> shape1 B = 4 \<and> wf2 B"
  using assms
  by (auto simp: bbox_xywh_to_xyxy_def broadcast_dim_def wf2_def list_all_iff bc_map2_def)

lemma xyxy_to_xywh_shape:
  fixes A :: "('a::linordered_idom) ndarray2"
  assumes "wf2 A" and "shape1 A = 4"
  shows "\<exists>B. bbox_xyxy_to_xywh rnd (NdArray2 A) = Inr (NdArray2 B)
            \<and> shape0 B = shape0 A \<and> shape1 B = 4 \<and> wf2 B"
  using assms
  by (auto simp: bbox_xyxy_to_xywh_def broadcast_dim_def wf2_def list_all_iff bc_map2_def)

text \<open>
  C10. For every array of shape (N, 4), \<open>bbox_clip_xyxy\<close> returns a one-dimensional array
  of length 4N, the four clipped columns laid end to end, and not a two-dimensional
  array; \<open>bbox_xywh_to_xyxy\<close> and \<open>bbox_xyxy_to_xywh\<close> return an array of shape (N, 4),
  whatever the rounding of the number type.
\<close>

theorem bbox_clip_xyxy_flat:
  fixes A :: "('a::linordered_idom) ndarray2"
  assumes "wf2 A" and "shape1 A = 4"
  shows "(\<exists>v. bbox_clip_xyxy (NdArray2 A) width height = Inr (NdArray1 v)
            \<and> length v = 4 * shape0 A
            \<and> v = map (\<lambda>r. min (width - 1) (max 0 (r ! 0))) (rows A)
                @ map (\<lambda>r. min (height - 1) (max 0 (r ! 1))) (rows A)
                @ map (\<lambda>r. min (width - 1) (max 0 (r ! 2))) (rows A)
                @ map (\<lambda>r. min (height - 1) (max 0 (r ! 3))) (rows A))
       \<and> (\<exists>B. bbox_xywh_to_xyxy rnd (NdArray2 A) = Inr (NdArray2 B)
            \<and> shape0 B = shape0 A \<and> shape1 B = 4 \<and> wf2 B)
       \<and> (\<exists>B. bbox_xyxy_to_xywh rnd (NdArray2 A) = Inr (NdArray2 B)
            \<and> shape0 B = shape0 A \<and> shape1 B = 4 \<and> wf2 B)"
proof -
  have "length (rows A) = shape0 A" using assms(1) by (simp add: wf2_def)
  then show ?thesis
    using bbox_clip_array [OF assms, of width height]
      xywh_to_xyxy_shape [OF assms, of rnd] xyxy_to_xywh_shape [OF assms, of rnd]
    by simp
qed

theorem bbox_clip_xyxy_flat_witness:
  "wf2 \<lparr>shape0 = 2, shape1 = 4, rows = [[- 3, 2, 9, 9], [1, 1, 4, 7 :: int]]\<rparr>
   \<and> (\<exists>v. bbox_clip_xyxy
             (NdArray2 \<lparr>shape0 = 2, shape1 = 4, rows = [[- 3, 2, 9, 9], [1, 1, 4, 7 :: int]]\<rparr>)
             8 6 = Inr (NdArray1 v)
          \<and> length v = 8 \<and> v = [0, 1, 2, 1, 7, 4, 5, 5])
   \<and> (\<exists>B. bbox_xywh_to_xyxy wrap_int64
             (NdArray2 \<lparr>shape0 = 2, shape1 = 4, rows = [[- 3, 2, 9, 9], [1, 1, 4, 7 :: int]]\<rparr>)
             = Inr (NdArray2 B) \<and> shape0 B = 2 \<and> shape1 B = 4 \<and> wf2 B)
   \<and> (\<exists>B. bbox_xyxy_to_xywh wrap_int64
             (NdArray2 \<lparr>shape0 = 2, shape1 = 4, rows = [[- 3, 2, 9, 9], [1, 1, 4, 7 :: int]]\<rparr>)
             = Inr (NdArray2 B) \<and> shape0 B = 2 \<and> shape1 B = 4 \<and> wf2 B)"
proof -
  let ?A = "\<lparr>shape0 = 2, shape1 = 4, rows = [[- 3, 2, 9, 9], [1, 1, 4, 7 :: int]]\<rparr>"
  have a: "wf2 ?A" by (simp add: wf2_def)
  have c: "shape1 ?A = 4" by simp
  show ?thesis using a bbox_clip_xyxy_flat [OF a c, of 8 6 wrap_int64] by simp
qed

section \<open>Properties of the polygon reconstruction\<close>

lemma collect_map_Inr: "collect (map (\<lambda>x. Inr (f x)) xs) = Inr (map f xs)"
  by (induction xs) simp_all

lemma chebval_returns:
  assumes "c \<noteq> []"
  shows "\<exists>v. chebval x c = Inr v"
proof -
  from assms have "rev c \<noteq> []" by simp
  then show ?thesis
    by (auto simp: chebval_def split: list.splits prod.splits)
qed

lemma chebval_value: "c \<noteq> [] \<Longrightarrow> chebval x c = Inr (projr (chebval x c))"
  using chebval_returns [of c x] by auto

lemma cheby_returns:
  assumes "wf2 coef" and "1 \<le> shape1 coef"
  shows "cheby coef = Inr \<lparr>shape0 = shape0 coef, shape1 = 360,
           rows = map (\<lambda>c. map (\<lambda>k. projr (chebval (linspace360 k) c)) [0..<360]) (rows coef)\<rparr>"
proof -
  have ne: "c \<noteq> []" if "c \<in> set (rows coef)" for c
    using that assms by (auto simp: wf2_def list_all_iff)
  have "map (\<lambda>c. collect (map (\<lambda>k. chebval (linspace360 k) c) [0..<360])) (rows coef)
      = map (\<lambda>c. Inr (map (\<lambda>k. projr (chebval (linspace360 k) c)) [0..<360])) (rows coef)"
  proof (rule map_cong [OF refl])
    fix c assume "c \<in> set (rows coef)"
    then have c: "c \<noteq> []" by (rule ne)
    have "map (\<lambda>k. chebval (linspace360 k) c) [0..<360]
        = map (\<lambda>k. Inr (projr (chebval (linspace360 k) c))) [0..<360]"
      by (rule map_cong [OF refl]) (rule chebval_value [OF c])
    then show "collect (map (\<lambda>k. chebval (linspace360 k) c) [0..<360])
        = Inr (map (\<lambda>k. projr (chebval (linspace360 k) c)) [0..<360])"
      by (simp only: collect_map_Inr)
  qed
  then have "collect (map (\<lambda>c. collect (map (\<lambda>k. chebval (linspace360 k) c) [0..<360])) (rows coef))
      = Inr (map (\<lambda>c. map (\<lambda>k. projr (chebval (linspace360 k) c)) [0..<360]) (rows coef))"
    by (simp only: collect_map_Inr)
  then show ?thesis using assms(2) by (simp add: cheby_def)
qed

lemma brow_nth: "i < length xs \<Longrightarrow> brow xs i = xs ! i"
  by (cases "length xs = 1") (simp_all add: brow_def)

lemma coef_trans_polygon_rows:
  assumes "wf2 coefs" and "wf2 bboxs" and "wf2 centers"
    and "shape0 bboxs = shape0 coefs" and "shape0 centers = shape0 coefs"
    and "1 \<le> shape1 coefs" and "4 \<le> shape1 bboxs" and "2 \<le> shape1 centers"
  shows "coef_trans_polygon coefs bboxs centers =
           Inr (map (\<lambda>i. polygon_row (rows bboxs ! i) (rows centers ! i)
                          (map (\<lambda>k. projr (chebval (linspace360 k) (rows coefs ! i))) [0..<360]))
                  [0..<shape0 coefs])"
proof -
  let ?ch = "\<lparr>shape0 = shape0 coefs, shape1 = 360,
           rows = map (\<lambda>c. map (\<lambda>k. projr (chebval (linspace360 k) c)) [0..<360]) (rows coefs)\<rparr>"
  have ch: "cheby coefs = Inr ?ch" using assms(1,6) by (rule cheby_returns)
  have lc: "length (rows coefs) = shape0 coefs"
    and lb: "length (rows bboxs) = shape0 coefs"
    and le: "length (rows centers) = shape0 coefs"
    using assms(1-5) by (simp_all add: wf2_def)
  have "map (\<lambda>i. polygon_row (brow (rows bboxs) i) (brow (rows centers) i) (brow (rows ?ch) i))
          [0..<shape0 coefs]
      = map (\<lambda>i. polygon_row (rows bboxs ! i) (rows centers ! i)
                          (map (\<lambda>k. projr (chebval (linspace360 k) (rows coefs ! i))) [0..<360]))
          [0..<shape0 coefs]"
    by (rule map_cong [OF refl]) (simp add: brow_nth lc lb le)
  then show ?thesis
    using assms(4,5,7,8) by (simp add: coef_trans_polygon_def ch broadcast_dim_def)
qed

lemma np_clip_bounds: "lo \<le> hi \<Longrightarrow> lo \<le> np_clip x lo hi \<and> np_clip x lo hi \<le> hi"
  by (simp add: np_clip_def)

lemma polygon_row_length: "length (polygon_row b ctr ch) = 360"
  by (simp add: polygon_row_def Let_def)

lemma polygon_row_bounds:
  assumes "k < 360" and "b ! 0 \<le> b ! 2" and "b ! 1 \<le> b ! 3"
  shows "b ! 0 \<le> fst (polygon_row b ctr ch ! k) \<and> fst (polygon_row b ctr ch ! k) \<le> b ! 2
       \<and> b ! 1 \<le> snd (polygon_row b ctr ch ! k) \<and> snd (polygon_row b ctr ch ! k) \<le> b ! 3"
  using assms np_clip_bounds [OF assms(2)] np_clip_bounds [OF assms(3)]
  by (simp add: polygon_row_def Let_def split: prod.splits)

lemma chebval_zero: "projr (chebval x [0]) = 0"
  by (simp add: chebval_def)

lemma polygon_row_inverted:
  "polygon_row [10, 10, 0, 0] [5, 5] (map (\<lambda>k. 0) [0..<360]) = replicate 360 (0, 0)"
proof -
  have "polygon_row [10, 10, 0, 0] [5, 5] (map (\<lambda>k. 0) [0..<360])
      = map (\<lambda>k. (0, 0)) [0..<360]"
    unfolding polygon_row_def Let_def
    by (rule map_cong [OF refl]) (simp add: polarToCart_def np_clip_def)
  then show ?thesis by (simp add: map_replicate_const)
qed

text \<open>
  C1, as the code has it. The claim "for every bounding-box table every point of the
  polygon lies in [xmin, xmax] x [ymin, ymax] of its row" fails for a row whose corners
  are not ordered: \<^verbatim>\<open>np.clip\<close> does not compare its bounds, and with the box
  (10, 10, 0, 0), centre (5, 5) and the zero series every point is clipped to (0, 0),
  which is below xmin = 10. The module itself takes \<^verbatim>\<open>np.abs\<close> of the width and the
  height, so such rows are expected.
\<close>

theorem coef_trans_polygon_counterexample:
  "coef_trans_polygon \<lparr>shape0 = 1, shape1 = 1, rows = [[0]]\<rparr>
       \<lparr>shape0 = 1, shape1 = 4, rows = [[10, 10, 0, 0]]\<rparr>
       \<lparr>shape0 = 1, shape1 = 2, rows = [[5, 5]]\<rparr>
     = Inr [replicate 360 (0, 0)]
   \<and> \<not> (10 :: real) \<le> 0"
proof -
  have "coef_trans_polygon \<lparr>shape0 = 1, shape1 = 1, rows = [[0]]\<rparr>
       \<lparr>shape0 = 1, shape1 = 4, rows = [[10, 10, 0, 0]]\<rparr>
       \<lparr>shape0 = 1, shape1 = 2, rows = [[5, 5]]\<rparr>
     = Inr [polygon_row [10, 10, 0, 0] [5, 5] (map (\<lambda>k. 0) [0..<360])]"
    by (subst coef_trans_polygon_rows) (simp_all add: wf2_def chebval_zero)
  then show ?thesis by (simp add: polygon_row_inverted)
qed

text \<open>
  C1, amended. For every coefficient table (N x K, K \<ge> 1), bounding-box table (N x 4) and
  centre table (N x 2), \<open>coef_trans_polygon\<close> returns N polygons of 360 points, and for
  every row whose box has xmin \<le> xmax and ymin \<le> ymax all 360 x-coordinates lie in
  [xmin, xmax] and all 360 y-coordinates in [ymin, ymax].
\<close>

theorem coef_trans_polygon_in_box:
  assumes "wf2 coefs" and "wf2 bboxs" and "wf2 centers"
    and "shape0 bboxs = shape0 coefs" and "shape0 centers = shape0 coefs"
    and "1 \<le> shape1 coefs" and "shape1 bboxs = 4" and "shape1 centers = 2"
  shows "\<exists>P. coef_trans_polygon coefs bboxs centers = Inr P
           \<and> length P = shape0 coefs
           \<and> (\<forall>i < shape0 coefs.
                length (P ! i) = 360
              \<and> (rows bboxs ! i ! 0 \<le> rows bboxs ! i ! 2 \<and> rows bboxs ! i ! 1 \<le> rows bboxs ! i ! 3
                 \<longrightarrow> (\<forall>k < 360.
                        rows bboxs ! i ! 0 \<le> fst (P ! i ! k) \<and> fst (P ! i ! k) \<le> rows bboxs ! i ! 2
                      \<and> rows bboxs ! i ! 1 \<le> snd (P ! i ! k) \<and> snd (P ! i ! k) \<le> rows bboxs ! i ! 3)))"
proof -
  let ?P = "map (\<lambda>i. polygon_row (rows bboxs ! i) (rows centers ! i)
                          (map (\<lambda>k. projr (chebval (linspace360 k) (rows coefs ! i))) [0..<360]))
                  [0..<shape0 coefs]"
  have eq: "coef_trans_polygon coefs bboxs centers = Inr ?P"
    using assms by (intro coef_trans_polygon_rows) simp_all
  have "length ?P = shape0 coefs" by simp
  moreover have "\<forall>i < shape0 coefs.
                length (?P ! i) = 360
              \<and> (rows bboxs ! i ! 0 \<le> rows bboxs ! i ! 2 \<and> rows bboxs ! i ! 1 \<le> rows bboxs ! i ! 3
                 \<longrightarrow> (\<forall>k < 360.
                        rows bboxs ! i ! 0 \<le> fst (?P ! i ! k) \<and> fst (?P ! i ! k) \<le> rows bboxs ! i ! 2
                      \<and> rows bboxs ! i ! 1 \<le> snd (?P ! i ! k) \<and> snd (?P ! i ! k) \<le> rows bboxs ! i ! 3))"
  proof (intro allI impI conjI)
    fix i assume "i < shape0 coefs"
    then show "length (?P ! i) = 360" by (simp add: polygon_row_length)
  next
    fix i k
    assume i: "i < shape0 coefs" and k: "k < (360::nat)"
      and b: "rows bboxs ! i ! 0 \<le> rows bboxs ! i ! 2 \<and> rows bboxs ! i ! 1 \<le> rows bboxs ! i ! 3"
    let ?row = "polygon_row (rows bboxs ! i) (rows centers ! i)
                  (map (\<lambda>k. projr (chebval (linspace360 k) (rows coefs ! i))) [0..<360])"
    have Pi: "?P ! i = ?row" using i by simp
    from b have b1: "rows bboxs ! i ! 0 \<le> rows bboxs ! i ! 2"
      and b2: "rows bboxs ! i ! 1 \<le> rows bboxs ! i ! 3" by simp_all
    note B = polygon_row_bounds [OF k b1 b2, of "rows centers ! i"
        "map (\<lambda>k. projr (chebval (linspace360 k) (rows coefs ! i))) [0..<360]"]
    show "rows bboxs ! i ! 0 \<le> fst (?P ! i ! k)" unfolding Pi using B by simp
    show "fst (?P ! i ! k) \<le> rows bboxs ! i ! 2" unfolding Pi using B by simp
    show "rows bboxs ! i ! 1 \<le> snd (?P ! i ! k)" unfolding Pi using B by simp
    show "snd (?P ! i ! k) \<le> rows bboxs ! i ! 3" unfolding Pi using B by simp
  qed
  ultimately show ?thesis using eq by blast
qed

theorem coef_trans_polygon_in_box_witness:
  "wf2 \<lparr>shape0 = 1, shape1 = 2, rows = [[1 / 4, 1 / 8 :: real]]\<rparr>
   \<and> wf2 \<lparr>shape0 = 1, shape1 = 4, rows = [[0, 0, 10, 20 :: real]]\<rparr>
   \<and> wf2 \<lparr>shape0 = 1, shape1 = 2, rows = [[5, 5 :: real]]\<rparr>
   \<and> (\<exists>P. coef_trans_polygon \<lparr>shape0 = 1, shape1 = 2, rows = [[1 / 4, 1 / 8]]\<rparr>
              \<lparr>shape0 = 1, shape1 = 4, rows = [[0, 0, 10, 20]]\<rparr>
              \<lparr>shape0 = 1, shape1 = 2, rows = [[5, 5]]\<rparr> = Inr P
          \<and> length P = 1 \<and> length (P ! 0) = 360
          \<and> (\<forall>k < 360. 0 \<le> fst (P ! 0 ! k) \<and> fst (P ! 0 ! k) \<le> 10
                      \<and> 0 \<le> snd (P ! 0 ! k) \<and> snd (P ! 0 ! k) \<le> 20))"
proof -
  let ?C = "\<lparr>shape0 = 1, shape1 = 2, rows = [[1 / 4, 1 / 8 :: real]]\<rparr>"
  let ?B = "\<lparr>shape0 = 1, shape1 = 4, rows = [[0, 0, 10, 20 :: real]]\<rparr>"
  let ?E = "\<lparr>shape0 = 1, shape1 = 2, rows = [[5, 5 :: real]]\<rparr>"
  have c: "wf2 ?C" and b: "wf2 ?B" and e: "wf2 ?E" by (simp_all add: wf2_def)
  have s: "shape0 ?B = shape0 ?C" "shape0 ?E = shape0 ?C" "1 \<le> shape1 ?C"
    "shape1 ?B = 4" "shape1 ?E = 2" by simp_all
  from coef_trans_polygon_in_box [OF c b e s]
  obtain P where P: "coef_trans_polygon ?C ?B ?E = Inr P" and l: "length P = shape0 ?C"
    and r: "\<forall>i < shape0 ?C.
                length (P ! i) = 360
              \<and> (rows ?B ! i ! 0 \<le> rows ?B ! i ! 2 \<and> rows ?B ! i ! 1 \<le> rows ?B ! i ! 3
                 \<longrightarrow> (\<forall>k < 360.
                        rows ?B ! i ! 0 \<le> fst (P ! i ! k) \<and> fst (P ! i ! k) \<le> rows ?B ! i ! 2
                      \<and> rows ?B ! i ! 1 \<le> snd (P ! i ! k) \<and> snd (P ! i ! k) \<le> rows ?B ! i ! 3))"
    by (elim exE conjE)
  from r have "length (P ! 0) = 360
       \<and> (\<forall>k < 360. 0 \<le> fst (P ! 0 ! k) \<and> fst (P ! 0 ! k) \<le> 10
                      \<and> 0 \<le> snd (P ! 0 ! k) \<and> snd (P ! 0 ! k) \<le> 20)"
    by simp
  with P l c b e show ?thesis by simp
qed

section \<open>Properties of the polygon IOU\<close>

lemma iou_row_length: "iou_row G pa ga bs = Inr vs \<Longrightarrow> length vs = length bs"
  by (induction bs arbitrary: vs) (auto split: sum.splits)

lemma iou_row_nth:
  "iou_row G pa ga bs = Inr vs \<Longrightarrow> m < length bs \<Longrightarrow> pair_iou G pa ga (bs ! m) = Inr (vs ! m)"
proof (induction bs arbitrary: vs m)
  case Nil
  then show ?case by simp
next
  case (Cons b bs)
  then show ?case by (cases m) (auto split: sum.splits)
qed

lemma iou_rows_length: "iou_rows G as bs = Inr rs \<Longrightarrow> length rs = length as"
  by (induction as arbitrary: rs) (auto split: sum.splits)

lemma iou_rows_nth:
  "iou_rows G as bs = Inr rs \<Longrightarrow> n < length as \<Longrightarrow>
     \<exists>ga. Polygon_convex_hull G (as ! n) = Inr ga \<and> iou_row G (as ! n) ga bs = Inr (rs ! n)"
proof (induction as arbitrary: rs n)
  case Nil
  then show ?case by simp
next
  case (Cons a as)
  then show ?case by (cases n) (auto split: sum.splits)
qed

lemma polygon_iou_entry:
  assumes "polygon_iou G as bs offset = Inr R" and "n < length as" and "m < length bs"
  shows "\<exists>ga. Polygon_convex_hull G (as ! n) = Inr ga
            \<and> pair_iou G (as ! n) ga (bs ! m) = Inr (rows R ! n ! m)"
proof -
  from assms(1) have rs: "iou_rows G as bs = Inr (rows R)"
    by (auto simp: polygon_iou_def split: sum.splits)
  from iou_rows_nth [OF rs assms(2)] obtain ga
    where ga: "Polygon_convex_hull G (as ! n) = Inr ga"
      and row: "iou_row G (as ! n) ga bs = Inr (rows R ! n)" by blast
  from iou_row_nth [OF row assms(3)] ga show ?thesis by blast
qed

lemma polygon_iou_shape:
  assumes "polygon_iou G as bs offset = Inr R"
  shows "shape0 R = length as \<and> shape1 R = length bs \<and> length (rows R) = length as"
  using assms iou_rows_length [of G as bs]
  by (auto simp: polygon_iou_def split: sum.splits)

lemma pair_iou_degenerate:
  assumes "pair_iou G pa ga pb = Inr v" and "Polygon_convex_hull G pb = Inr gb"
    and "intersection_area G ga gb = Inl TopologicalError
         \<or> intersection_area G ga gb = Inr 0
         \<or> MultiPoint_convex_hull_area G (pa @ pb) = Inr 0"
  shows "v = 0"
  using assms
  by (auto simp: pair_iou_def try_iou_def split: sum.splits py_error.splits if_splits)

text \<open>Where an error that leaves the loops was raised.\<close>

lemma try_iou_error:
  "try_iou G pa ga pb gb = Inl e \<Longrightarrow>
     intersection_area G ga gb = Inl e \<or> MultiPoint_convex_hull_area G (pa @ pb) = Inl e"
  by (auto simp: try_iou_def split: sum.splits)

lemma pair_iou_error:
  assumes "pair_iou G pa ga pb = Inl e"
  shows "Polygon_convex_hull G pb = Inl e
       \<or> (e \<noteq> TopologicalError
          \<and> ((\<exists>gb. intersection_area G ga gb = Inl e)
             \<or> MultiPoint_convex_hull_area G (pa @ pb) = Inl e))"
proof (cases "Polygon_convex_hull G pb")
  case (Inl e')
  with assms show ?thesis by (simp add: pair_iou_def)
next
  case (Inr gb)
  with assms have t: "try_iou G pa ga pb gb = Inl e" and ne: "e \<noteq> TopologicalError"
    by (auto simp: pair_iou_def split: sum.splits py_error.splits)
  from try_iou_error [OF t] ne show ?thesis by blast
qed

lemma iou_row_error:
  "iou_row G pa ga bs = Inl e \<Longrightarrow>
     (\<exists>p \<in> set bs. Polygon_convex_hull G p = Inl e)
     \<or> (e \<noteq> TopologicalError
        \<and> ((\<exists>ga gb. intersection_area G ga gb = Inl e)
           \<or> (\<exists>ps. MultiPoint_convex_hull_area G ps = Inl e)))"
proof (induction bs)
  case Nil
  then show ?case by simp
next
  case (Cons b bs)
  show ?case
  proof (cases "pair_iou G pa ga b")
    case (Inl e')
    with Cons.prems have "e' = e" by simp
    with Inl pair_iou_error [of G pa ga b e] show ?thesis by auto
  next
    case (Inr v)
    with Cons.prems have "iou_row G pa ga bs = Inl e" by (auto split: sum.splits)
    from Cons.IH [OF this] show ?thesis by auto
  qed
qed

lemma iou_rows_error:
  "iou_rows G as bs = Inl e \<Longrightarrow>
     (\<exists>p \<in> set as \<union> set bs. Polygon_convex_hull G p = Inl e)
     \<or> (e \<noteq> TopologicalError
        \<and> ((\<exists>ga gb. intersection_area G ga gb = Inl e)
           \<or> (\<exists>ps. MultiPoint_convex_hull_area G ps = Inl e)))"
proof (induction as)
  case Nil
  then show ?case by simp
next
  case (Cons a as)
  show ?case
  proof (cases "Polygon_convex_hull G a")
    case (Inl e')
    with Cons.prems have "e' = e" by simp
    with Inl show ?thesis by auto
  next
    case (Inr ga)
    show ?thesis
    proof (cases "iou_row G a ga bs")
      case (Inl e')
      with Inr Cons.prems have "e' = e" by simp
      with Inl iou_row_error [of G a ga bs e] show ?thesis by auto
    next
      case r: (Inr r)
      with Inr Cons.prems have "iou_rows G as bs = Inl e" by (auto split: sum.splits)
      from Cons.IH [OF this] show ?thesis by auto
    qed
  qed
qed

lemma polygon_iou_error:
  "polygon_iou G as bs offset = Inl e \<Longrightarrow>
     (\<exists>p \<in> set as \<union> set bs. Polygon_convex_hull G p = Inl e)
     \<or> (e \<noteq> TopologicalError
        \<and> ((\<exists>ga gb. intersection_area G ga gb = Inl e)
           \<or> (\<exists>ps. MultiPoint_convex_hull_area G ps = Inl e)))"
  using iou_rows_error [of G as bs e] by (auto simp: polygon_iou_def split: sum.splits)

text \<open>
  C2. For every pair of input polygons: whenever \<open>polygon_iou\<close> returns, the entry of a
  pair is exactly 0 if the intersection raised a topological failure, if the intersection
  area is 0 or if the area of the hull of the pooled points is 0. An error that
  \<open>polygon_iou\<close> does hand to its caller was raised by a hull construction before the
  \<^verbatim>\<open>try\<close>, or is not a topological failure; so when the hulls can be built and the
  guarded operations fail topologically only, \<open>polygon_iou\<close> returns its N x M matrix.
\<close>

theorem polygon_iou_degenerate:
  "(\<forall>R n m ga gb.
       polygon_iou G as bs offset = Inr R \<and> n < length as \<and> m < length bs
       \<and> Polygon_convex_hull G (as ! n) = Inr ga \<and> Polygon_convex_hull G (bs ! m) = Inr gb
       \<and> (intersection_area G ga gb = Inl TopologicalError
          \<or> intersection_area G ga gb = Inr 0
          \<or> MultiPoint_convex_hull_area G (as ! n @ bs ! m) = Inr 0)
       \<longrightarrow> rows R ! n ! m = 0)
   \<and> (\<forall>e. polygon_iou G as bs offset = Inl e \<longrightarrow>
          (\<exists>p \<in> set as \<union> set bs. Polygon_convex_hull G p = Inl e)
          \<or> (e \<noteq> TopologicalError
             \<and> ((\<exists>ga gb. intersection_area G ga gb = Inl e)
                \<or> (\<exists>ps. MultiPoint_convex_hull_area G ps = Inl e))))
   \<and> ((\<forall>p \<in> set as \<union> set bs. \<exists>g. Polygon_convex_hull G p = Inr g)
       \<and> (\<forall>ga gb e. intersection_area G ga gb = Inl e \<longrightarrow> e = TopologicalError)
       \<and> (\<forall>ps e. MultiPoint_convex_hull_area G ps = Inl e \<longrightarrow> e = TopologicalError)
       \<longrightarrow> (\<exists>R. polygon_iou G as bs offset = Inr R
                 \<and> shape0 R = length as \<and> shape1 R = length bs))"
proof (intro conjI allI impI)
  fix R n m ga gb
  assume a: "polygon_iou G as bs offset = Inr R \<and> n < length as \<and> m < length bs
       \<and> Polygon_convex_hull G (as ! n) = Inr ga \<and> Polygon_convex_hull G (bs ! m) = Inr gb
       \<and> (intersection_area G ga gb = Inl TopologicalError
          \<or> intersection_area G ga gb = Inr 0
          \<or> MultiPoint_convex_hull_area G (as ! n @ bs ! m) = Inr 0)"
  then have ret: "polygon_iou G as bs offset = Inr R" and n: "n < length as" and m: "m < length bs"
    and ga: "Polygon_convex_hull G (as ! n) = Inr ga"
    and gb: "Polygon_convex_hull G (bs ! m) = Inr gb"
    and d: "intersection_area G ga gb = Inl TopologicalError
          \<or> intersection_area G ga gb = Inr 0
          \<or> MultiPoint_convex_hull_area G (as ! n @ bs ! m) = Inr 0"
    by simp_all
  from polygon_iou_entry [OF ret n m] ga
  have "pair_iou G (as ! n) ga (bs ! m) = Inr (rows R ! n ! m)" by auto
  then show "rows R ! n ! m = 0" using gb d by (rule pair_iou_degenerate)
next
  fix e
  assume "polygon_iou G as bs offset = Inl e"
  then show "(\<exists>p \<in> set as \<union> set bs. Polygon_convex_hull G p = Inl e)
          \<or> (e \<noteq> TopologicalError
             \<and> ((\<exists>ga gb. intersection_area G ga gb = Inl e)
                \<or> (\<exists>ps. MultiPoint_convex_hull_area G ps = Inl e)))"
    by (rule polygon_iou_error)
next
  assume h: "(\<forall>p \<in> set as \<union> set bs. \<exists>g. Polygon_convex_hull G p = Inr g)
       \<and> (\<forall>ga gb e. intersection_area G ga gb = Inl e \<longrightarrow> e = TopologicalError)
       \<and> (\<forall>ps e. MultiPoint_convex_hull_area G ps = Inl e \<longrightarrow> e = TopologicalError)"
  show "\<exists>R. polygon_iou G as bs offset = Inr R \<and> shape0 R = length as \<and> shape1 R = length bs"
  proof (cases "polygon_iou G as bs offset")
    case (Inl e)
    from polygon_iou_error [OF Inl]
    show ?thesis
    proof (elim disjE bexE conjE exE)
      fix p assume "p \<in> set as \<union> set bs" and pe: "Polygon_convex_hull G p = Inl e"
      with h obtain g where "Polygon_convex_hull G p = Inr g" by blast
      with pe show ?thesis by simp
    next
      fix ga gb assume "e \<noteq> TopologicalError" and "intersection_area G ga gb = Inl e"
      with h show ?thesis by blast
    next
      fix ps assume "e \<noteq> TopologicalError" and "MultiPoint_convex_hull_area G ps = Inl e"
      with h show ?thesis by blast
    qed
  next
    case (Inr R)
    with polygon_iou_shape [OF Inr] show ?thesis by simp
  qed
qed

theorem polygon_iou_degenerate_witness:
  "intersection_area zero_overlap_geometry [(0, 0), (1, 0), (1, 1), (0, 1)] []
     = Inl TopologicalError
   \<and> intersection_area zero_overlap_geometry [(0, 0), (1, 0), (1, 1), (0, 1)]
       [(5, 5), (6, 5), (6, 6), (5, 6)] = Inr 0
   \<and> (\<exists>R. polygon_iou zero_overlap_geometry [[(0, 0), (1, 0), (1, 1), (0, 1)]]
             [[], [(5, 5), (6, 5), (6, 6), (5, 6)]] 0 = Inr R
          \<and> shape0 R = 1 \<and> shape1 R = 2 \<and> rows R ! 0 ! 0 = 0 \<and> rows R ! 0 ! 1 = 0)"
proof -
  let ?G = zero_overlap_geometry
  let ?as = "[[(0, 0), (1, 0), (1, 1), (0, 1)]] :: point list list"
  let ?bs = "[[], [(5, 5), (6, 5), (6, 6), (5, 6)]] :: point list list"
  note T = polygon_iou_degenerate [of ?G ?as ?bs 0]
  have h: "(\<forall>p \<in> set ?as \<union> set ?bs. \<exists>g. Polygon_convex_hull ?G p = Inr g)
       \<and> (\<forall>ga gb e. intersection_area ?G ga gb = Inl e \<longrightarrow> e = TopologicalError)
       \<and> (\<forall>ps e. MultiPoint_convex_hull_area ?G ps = Inl e \<longrightarrow> e = TopologicalError)"
    by (simp add: zero_overlap_geometry_def)
  from T [THEN conjunct2, THEN conjunct2, THEN mp, OF h]
  obtain R where R: "polygon_iou ?G ?as ?bs 0 = Inr R"
    and s: "shape0 R = length ?as" "shape1 R = length ?bs" by (elim exE conjE)
  have t: "intersection_area ?G (?as ! 0) (?bs ! 0) = Inl TopologicalError"
    and z: "intersection_area ?G (?as ! 0) (?bs ! 1) = Inr 0"
    by (simp_all add: zero_overlap_geometry_def)
  have ha: "Polygon_convex_hull ?G (?as ! 0) = Inr (?as ! 0)"
    and hb0: "Polygon_convex_hull ?G (?bs ! 0) = Inr (?bs ! 0)"
    and hb1: "Polygon_convex_hull ?G (?bs ! 1) = Inr (?bs ! 1)"
    by (simp_all add: zero_overlap_geometry_def)
  note E = T [THEN conjunct1, rule_format]
  have e0: "rows R ! 0 ! 0 = 0" using E [of R 0 0 "?as ! 0" "?bs ! 0"] R t ha hb0 by simp
  have e1: "rows R ! 0 ! 1 = 0" using E [of R 0 1 "?as ! 0" "?bs ! 1"] R z ha hb1 by simp
  show ?thesis using R s e0 e1 t z by simp
qed

section \<open>Properties of the composite functions\<close>

lemma concat_chunk:
  assumes "\<forall>r \<in> set xs. length r = n" and "m < length xs"
  shows "take n (drop (m * n) (concat xs)) = xs ! m"
  using assms
proof (induction xs arbitrary: m)
  case Nil
  then show ?case by simp
next
  case (Cons r xs)
  then have lr: "length r = n" by simp
  show ?case
  proof (cases m)
    case 0
    then show ?thesis using lr by simp
  next
    case (Suc j)
    with Cons.prems have j: "j < length xs" by simp
    have "drop (Suc j * n) (concat (r # xs)) = drop (j * n) (concat xs)"
      using lr by simp
    then show ?thesis using Cons.IH [of j] Cons.prems(1) j Suc by simp
  qed
qed

lemma reshape360_rows:
  assumes "wf2 A" and "shape1 A = 360"
  shows "reshape360 A = Inr (rows A)"
proof -
  have len: "length (rows A) = shape0 A"
    and all: "\<forall>r \<in> set (rows A). length r = 360"
    using assms by (simp_all add: wf2_def list_all_iff)
  have "map (\<lambda>m. take 360 (drop (m * 360) (concat (rows A)))) [0..<length (rows A)]
      = map (\<lambda>m. rows A ! m) [0..<length (rows A)]"
    by (rule map_cong [OF refl]) (simp add: concat_chunk [OF all])
  also have "\<dots> = rows A" by (rule map_nth)
  finally show ?thesis using assms(2) len by (simp add: reshape360_def)
qed

text \<open>
  C8. On valid inputs (both reconstructions return their polygons; the ground-truth
  tables are M x 360) \<open>coef_iou\<close> is \<open>polygon_iou\<close> of the two reconstructed collections,
  and \<open>coef_polygon_iou\<close> is \<open>polygon_iou\<close> of the reconstructed predictions and the
  ground-truth points in polygon form; neither adds any computation of its own.
\<close>

theorem coef_iou_delegates:
  assumes "coef_trans_polygon coef_as bbox_as center_as = Inr polygon_as"
    and "coef_trans_polygon coef_bs bbox_bs center_bs = Inr polygon_bs"
    and "wf2 gt_xs" and "wf2 gt_ys" and "shape1 gt_xs = 360" and "shape1 gt_ys = 360"
    and "shape0 gt_ys = shape0 gt_xs"
  shows "coef_iou G coef_as coef_bs bbox_as bbox_bs center_as center_bs
           = polygon_iou G polygon_as polygon_bs 0
       \<and> coef_polygon_iou G coef_as center_as bbox_as gt_xs gt_ys
           = polygon_iou G polygon_as (spec_gt_polygons gt_xs gt_ys) 0"
proof -
  have x: "reshape360 gt_xs = Inr (rows gt_xs)" using assms(3,5) by (rule reshape360_rows)
  have y: "reshape360 gt_ys = Inr (rows gt_ys)" using assms(4,6) by (rule reshape360_rows)
  have l: "length (rows gt_xs) = length (rows gt_ys)"
    using assms(3,4,7) by (simp add: wf2_def)
  have c: "concatenate_last (rows gt_xs) (rows gt_ys) = Inr (spec_gt_polygons gt_xs gt_ys)"
    using l by (simp add: concatenate_last_def spec_gt_polygons_def)
  show ?thesis
    by (simp add: coef_iou_def coef_polygon_iou_def assms(1,2) x y c)
qed

theorem coef_iou_delegates_witness:
  "wf2 \<lparr>shape0 = 1, shape1 = 360, rows = [replicate 360 (1::real)]\<rparr>
   \<and> wf2 \<lparr>shape0 = 1, shape1 = 360, rows = [replicate 360 (2::real)]\<rparr>
   \<and> (\<exists>P. coef_trans_polygon \<lparr>shape0 = 1, shape1 = 2, rows = [[1 / 4, 1 / 8]]\<rparr>
              \<lparr>shape0 = 1, shape1 = 4, rows = [[0, 0, 10, 20]]\<rparr>
              \<lparr>shape0 = 1, shape1 = 2, rows = [[5, 5]]\<rparr> = Inr P
          \<and> coef_iou quarter_overlap_geometry
              \<lparr>shape0 = 1, shape1 = 2, rows = [[1 / 4, 1 / 8]]\<rparr>
              \<lparr>shape0 = 1, shape1 = 2, rows = [[1 / 4, 1 / 8]]\<rparr>
              \<lparr>shape0 = 1, shape1 = 4, rows = [[0, 0, 10, 20]]\<rparr>
              \<lparr>shape0 = 1, shape1 = 4, rows = [[0, 0, 10, 20]]\<rparr>
              \<lparr>shape0 = 1, shape1 = 2, rows = [[5, 5]]\<rparr>
              \<lparr>shape0 = 1, shape1 = 2, rows = [[5, 5]]\<rparr>
            = polygon_iou quarter_overlap_geometry P P 0
          \<and> coef_polygon_iou quarter_overlap_geometry
              \<lparr>shape0 = 1, shape1 = 2, rows = [[1 / 4, 1 / 8]]\<rparr>
              \<lparr>shape0 = 1, shape1 = 2, rows = [[5, 5]]\<rparr>
              \<lparr>shape0 = 1, shape1 = 4, rows = [[0, 0, 10, 20]]\<rparr>
              \<lparr>shape0 = 1, shape1 = 360, rows = [replicate 360 1]\<rparr>
              \<lparr>shape0 = 1, shape1 = 360, rows = [replicate 360 2]\<rparr>
            = polygon_iou quarter_overlap_geometry P [replicate 360 (1, 2)] 0)"
proof -
  let ?C = "\<lparr>shape0 = 1, shape1 = 2, rows = [[1 / 4, 1 / 8 :: real]]\<rparr>"
  let ?B = "\<lparr>shape0 = 1, shape1 = 4, rows = [[0, 0, 10, 20 :: real]]\<rparr>"
  let ?E = "\<lparr>shape0 = 1, shape1 = 2, rows = [[5, 5 :: real]]\<rparr>"
  let ?X = "\<lparr>shape0 = 1, shape1 = 360, rows = [replicate 360 (1::real)]\<rparr>"
  let ?Y = "\<lparr>shape0 = 1, shape1 = 360, rows = [replicate 360 (2::real)]\<rparr>"
  have c: "wf2 ?C" and b: "wf2 ?B" and e: "wf2 ?E" and x: "wf2 ?X" and y: "wf2 ?Y"
    by (simp_all add: wf2_def)
  have s: "shape0 ?B = shape0 ?C" "shape0 ?E = shape0 ?C" "1 \<le> shape1 ?C"
    "4 \<le> shape1 ?B" "2 \<le> shape1 ?E" by simp_all
  obtain P where P: "coef_trans_polygon ?C ?B ?E = Inr P"
    using coef_trans_polygon_rows [OF c b e s] by blast
  have g: "spec_gt_polygons ?X ?Y = [replicate 360 (1, 2)]"
    by (simp add: spec_gt_polygons_def zip_replicate)
  have sx: "shape1 ?X = 360" and sy: "shape1 ?Y = 360" and sxy: "shape0 ?Y = shape0 ?X"
    by simp_all
  from coef_iou_delegates [OF P P x y sx sy sxy, of quarter_overlap_geometry]
  show ?thesis using P x y by (simp only: g) blast
qed

end
